theory Spec2Isabelle
  imports Complex_Main
begin

section \<open>The node metrics adapter (KibanaMetricsAdapter)\<close>

text \<open>
  A shallow embedding of \<^verbatim>\<open>KibanaMetricsAdapter.getMetrics\<close> and
  \<^verbatim>\<open>KibanaMetricsAdapter.makeTSVBRequest\<close>. The adapter is asynchronous: every
  requested metric becomes one task, the tasks are started in request order and joined with
  \<^verbatim>\<open>Promise.all\<close>. The embedding keeps that structure. A task is cut at its two
  suspension points (the \<^verbatim>\<open>await\<close> of the interval calculation and the promise
  of the metric query), the order in which the backend answers is an explicit schedule, and
  every call to a collaborator is appended to a log.

  JavaScript numbers are only copied, tested for truthiness and printed here; they are
  embedded as reals (NaN and the infinities are left out).
\<close>

subsection \<open>Data\<close>

text \<open>A thrown \<^verbatim>\<open>new Error(message)\<close>. Collaborators reject with values of the same type.\<close>

datatype error = Error string

record infra_timerange =
  tr_from :: real
  tr_to :: real
  tr_interval :: string

record tsvb_timerange =
  tr_min :: real
  tr_max :: real

record node_ids =
  nodeId :: string
  cloudId :: "string option"

text \<open>Of \<^verbatim>\<open>sourceConfiguration.fields\<close> the adapter itself reads only \<^verbatim>\<open>timestamp\<close>.\<close>

record source_fields =
  fields_timestamp :: string

record source_configuration =
  metricAlias :: string
  logAlias :: string
  sc_fields :: source_fields

record infra_metrics_request_options =
  nodeType :: string
  nodeIds :: node_ids
  metrics :: "string list"
  timerange :: infra_timerange
  sourceConfiguration :: source_configuration

text \<open>
  The TSVB model a catalog entry creates. The adapter reads \<^verbatim>\<open>requires\<close>,
  \<^verbatim>\<open>id_type\<close> and \<^verbatim>\<open>map_field_to\<close> and writes \<^verbatim>\<open>interval\<close>; the
  rest of the model (the query template) is opaque to it and kept in \<open>template\<close>.
\<close>

record 'b tsvb_model =
  requires :: "string list"
  interval :: string
  id_type :: "string option"
  map_field_to :: "string option"
  template :: 'b

text \<open>The options object handed to \<^verbatim>\<open>calculateMetricInterval\<close>.\<close>

record interval_options =
  io_indexPattern :: string
  io_timestampField :: string
  io_timerange :: infra_timerange

text \<open>A filter \<^verbatim>\<open>{ match: { [field]: id } }\<close>.\<close>

datatype tsvb_filter = Match string string

text \<open>The raw response: an object from keys to panels, in key order.\<close>

record tsvb_series =
  tsvb_id :: string
  tsvb_label :: string
  tsvb_data :: "(real \<times> real) list"

record tsvb_panel =
  panel_series :: "tsvb_series list"

type_synonym tsvb_response = "(string \<times> tsvb_panel) list"

text \<open>The normalized output, \<^verbatim>\<open>NodeDetailsMetricData\<close>.\<close>

record data_point =
  timestamp :: real
  "value" :: real

record metric_series =
  series_id :: string
  series_label :: string
  series_data :: "data_point list"

record node_details_metric_data =
  metric_id :: string
  metric_series :: "metric_series list"

subsection \<open>Collaborators\<close>

text \<open>
  The imports of the adapter that are not part of these sources are parameters:
  \<^item> \<open>findInventoryFields\<close> gives the id field of a node type;
  \<^item> \<open>checkValidNode\<close> is the existence check (index pattern, id field, node id), bound to the
    request's search function;
  \<^item> \<open>metrics_tsvb\<close> is the catalog \<^verbatim>\<open>metrics.tsvb\<close>: a model creator per metric id
    (timestamp field, index pattern, interval);
  \<^item> \<open>calculateMetricInterval\<close> returns a number, or nothing, or rejects;
  \<^item> \<open>framework_makeTSVBRequest\<close> runs the metric query (model, time range, filters);
  \<^item> \<open>InventoryMetricRT_is\<close> is the runtime type check of a metric id;
  \<^item> \<open>number_to_string\<close> is the string a template literal prints for a number.
  An answer of the backend is a function of the call's arguments; when it arrives is the
  schedule's choice.
\<close>

record 'b collaborators =
  findInventoryFields :: "string \<Rightarrow> source_fields \<Rightarrow> string"
  checkValidNode :: "string \<Rightarrow> string \<Rightarrow> string \<Rightarrow> error + bool"
  metrics_tsvb :: "string \<Rightarrow> (string \<Rightarrow> string \<Rightarrow> string \<Rightarrow> 'b tsvb_model) option"
  calculateMetricInterval :: "interval_options \<Rightarrow> string list \<Rightarrow> error + real option"
  framework_makeTSVBRequest ::
    "'b tsvb_model \<Rightarrow> tsvb_timerange \<Rightarrow> tsvb_filter list \<Rightarrow> error + tsvb_response"
  InventoryMetricRT_is :: "string \<Rightarrow> bool"
  number_to_string :: "real \<Rightarrow> string"

subsection \<open>Truthiness\<close>

text \<open>\<^verbatim>\<open>!x\<close> on an optional string: undefined and the empty string are falsy.\<close>

definition truthy_string :: "string option \<Rightarrow> bool" where
  "truthy_string s = (case s of None \<Rightarrow> False | Some x \<Rightarrow> x \<noteq> [])"

subsection \<open>makeTSVBRequest\<close>

text \<open>
  The messages are the \<^verbatim>\<open>defaultMessage\<close> of each \<^verbatim>\<open>i18n.translate\<close> call with
  its values filled in.
\<close>

definition missingTSVBModelError :: "string \<Rightarrow> string \<Rightarrow> error" where
  "missingTSVBModelError metricId nodeType' =
     Error (''The TSVB model for '' @ metricId @ '' does not exist for '' @ nodeType')"

definition cloudIdMissingError :: "string \<Rightarrow> string \<Rightarrow> error" where
  "cloudIdMissingError metricId nodeId' =
     Error (''Model for '' @ metricId @ '' requires a cloudId, but none was given for ''
            @ nodeId' @ ''.'')"

definition nodeDoesNotExistError :: "string \<Rightarrow> error" where
  "nodeDoesNotExistError nodeId' = Error (nodeId' @ '' does not exist.'')"

definition invalidInfraMetricError :: "string \<Rightarrow> error" where
  "invalidInfraMetricError k = Error (k @ '' is not a valid InfraMetric'')"

text \<open>
  The part of \<^verbatim>\<open>makeTSVBRequest\<close> that runs when the task is created: the catalog
  lookup, the model, and the call of \<^verbatim>\<open>calculateMetricInterval\<close> (its arguments are
  returned). The task then waits for the answer.
\<close>

definition makeTSVBRequest_start ::
  "'b collaborators \<Rightarrow> string \<Rightarrow> infra_metrics_request_options
    \<Rightarrow> error + ('b tsvb_model \<times> interval_options)" where
  "makeTSVBRequest_start env metricId options =
     (case metrics_tsvb env metricId of
        None \<Rightarrow> Inl (missingTSVBModelError metricId (nodeType options))
      | Some createTSVBModel \<Rightarrow>
          (let indexPattern = metricAlias (sourceConfiguration options) @ '','' @
                              logAlias (sourceConfiguration options);
               model = createTSVBModel
                         (fields_timestamp (sc_fields (sourceConfiguration options)))
                         indexPattern
                         (tr_interval (timerange options))
           in Inr (model,
                   \<lparr>io_indexPattern = logAlias (sourceConfiguration options) @ '','' @
                                      metricAlias (sourceConfiguration options),
                    io_timestampField = fields_timestamp (sc_fields (sourceConfiguration options)),
                    io_timerange = timerange options\<rparr>)))"

text \<open>
  The part that runs when the interval calculation has answered with
  \<open>calculatedInterval\<close>: the interval override, the cloud id check, the choice of the
  filter. The result is the metric query to dispatch. The two tests
  \<^verbatim>\<open>if (calculatedInterval)\<close> and \<^verbatim>\<open>model.map_field_to ? ... : ...\<close> are
  truthiness tests: no value, the number zero and the empty string are falsy. (Where \<open>nid\<close>
  reads the cloud id it is present: the check before it has passed.)
\<close>

definition makeTSVBRequest_resume ::
  "'b collaborators \<Rightarrow> string \<Rightarrow> infra_metrics_request_options \<Rightarrow> string \<Rightarrow> 'b tsvb_model
    \<Rightarrow> real option \<Rightarrow> error + ('b tsvb_model \<times> tsvb_timerange \<times> tsvb_filter list)" where
  "makeTSVBRequest_resume env metricId options nodeField model0 calculatedInterval =
     (let timerange' = \<lparr>tr_min = tr_from (timerange options), tr_max = tr_to (timerange options)\<rparr>;
          model = (case calculatedInterval of
                     None \<Rightarrow> model0
                   | Some v \<Rightarrow>
                       if v = 0 then model0
                       else model0\<lparr>interval := ''>='' @ number_to_string env v @ ''s''\<rparr>)
      in if id_type model = Some ''cloud'' \<and> \<not> truthy_string (cloudId (nodeIds options))
         then Inl (cloudIdMissingError metricId (nodeId (nodeIds options)))
         else
           (let nid = (if id_type model = Some ''cloud''
                       then (case cloudId (nodeIds options) of Some c \<Rightarrow> c | None \<Rightarrow> [])
                       else nodeId (nodeIds options));
                filters = (case map_field_to model of
                             None \<Rightarrow> [Match nodeField nid]
                           | Some f \<Rightarrow>
                               if f = [] then [Match nodeField nid] else [Match f nid])
            in Inr (model, timerange', filters)))"

text \<open>What the promise of one task settles to, once every answer it waits for has arrived.\<close>

definition makeTSVBRequest ::
  "'b collaborators \<Rightarrow> string \<Rightarrow> infra_metrics_request_options \<Rightarrow> string
    \<Rightarrow> error + tsvb_response" where
  "makeTSVBRequest env metricId options nodeField =
     (case makeTSVBRequest_start env metricId options of
        Inl e \<Rightarrow> Inl e
      | Inr (model0, probe) \<Rightarrow>
          (case calculateMetricInterval env probe (requires model0) of
             Inl e \<Rightarrow> Inl e
           | Inr calculatedInterval \<Rightarrow>
               (case makeTSVBRequest_resume env metricId options nodeField model0
                       calculatedInterval of
                  Inl e \<Rightarrow> Inl e
                | Inr (model, tr, filters) \<Rightarrow> framework_makeTSVBRequest env model tr filters)))"

subsection \<open>Normalization of the raw results\<close>

text \<open>\<^verbatim>\<open>Array.prototype.map\<close> with a callback that may throw: the first throw ends it.\<close>

fun map_throw :: "('a \<Rightarrow> error + 'c) \<Rightarrow> 'a list \<Rightarrow> error + 'c list" where
  "map_throw f [] = Inr []"
| "map_throw f (x # xs) =
     (case f x of
        Inl e \<Rightarrow> Inl e
      | Inr y \<Rightarrow> (case map_throw f xs of Inl e \<Rightarrow> Inl e | Inr ys \<Rightarrow> Inr (y # ys)))"

definition normalize_point :: "real \<times> real \<Rightarrow> data_point" where
  "normalize_point point = \<lparr>timestamp = fst point, value = snd point\<rparr>"

definition normalize_series :: "tsvb_series \<Rightarrow> metric_series" where
  "normalize_series series =
     \<lparr>series_id = tsvb_id series, series_label = tsvb_label series,
      series_data = map normalize_point (tsvb_data series)\<rparr>"

definition reserved_keys :: "string list" where
  "reserved_keys = [''type'', ''uiRestrictions'']"

definition metricIds_of :: "tsvb_response \<Rightarrow> string list" where
  "metricIds_of result = filter (\<lambda>k. k \<notin> set reserved_keys) (map fst result)"

text \<open>The object built for an accepted key \<open>k\<close> from its panel.\<close>

definition normalize_panel :: "string \<Rightarrow> tsvb_panel \<Rightarrow> node_details_metric_data" where
  "normalize_panel k panel =
     \<lparr>metric_id = k, metric_series = map normalize_series (panel_series panel)\<rparr>"

text \<open>
  The callback of \<^verbatim>\<open>metricIds.map\<close>. Every id comes from the keys of \<open>result\<close>, so
  \<^verbatim>\<open>result[id]\<close> is a panel; reading \<^verbatim>\<open>series\<close> of a missing panel would be a
  TypeError.
\<close>

definition normalize_metric ::
  "'b collaborators \<Rightarrow> tsvb_response \<Rightarrow> string \<Rightarrow> error + node_details_metric_data" where
  "normalize_metric env result k =
     (if \<not> InventoryMetricRT_is env k then Inl (invalidInfraMetricError k)
      else (case map_of result k of
              None \<Rightarrow> Inl (Error ''TypeError'')
            | Some panel \<Rightarrow> Inr (normalize_panel k panel)))"

definition normalize_result ::
  "'b collaborators \<Rightarrow> tsvb_response \<Rightarrow> error + node_details_metric_data list" where
  "normalize_result env result = map_throw (normalize_metric env result) (metricIds_of result)"

text \<open>The two \<^verbatim>\<open>then\<close> steps after the join: normalize every result, then flatten.\<close>

definition normalize_all ::
  "'b collaborators \<Rightarrow> tsvb_response list \<Rightarrow> error + node_details_metric_data list" where
  "normalize_all env results =
     (case map_throw (normalize_result env) results of
        Inl e \<Rightarrow> Inl e
      | Inr parts \<Rightarrow> Inr (concat parts))"

subsection \<open>The tasks and the join\<close>

text \<open>
  A task waits for the interval calculation, or for the metric query it has dispatched, or
  has settled.
\<close>

datatype 'b task =
    AwaitInterval string "'b tsvb_model" interval_options
  | AwaitTSVB "'b tsvb_model" tsvb_timerange "tsvb_filter list"
  | Settled "error + tsvb_response"

text \<open>
  The log: calls to the collaborators in the order they are made, each metric call with the
  position of its metric in the request, and the rejections of tasks.
\<close>

datatype 'b event =
    EvCheckValidNode string string string
  | EvIntervalProbe nat interval_options "string list"
  | EvTSVBQuery nat "'b tsvb_model" tsvb_timerange "tsvb_filter list"
  | EvRejected nat error

text \<open>\<open>rejection\<close> is the state of the joined promise: the first rejection it has seen.\<close>

record 'b run_state =
  tasks :: "'b task list"
  trace :: "'b event list"
  rejection :: "error option"

definition settle :: "nat \<Rightarrow> error + tsvb_response \<Rightarrow> 'b run_state \<Rightarrow> 'b run_state" where
  "settle i r st =
     (case r of
        Inl e \<Rightarrow>
          st\<lparr>tasks := (tasks st)[i := Settled r],
             trace := trace st @ [EvRejected i e],
             rejection := (case rejection st of None \<Rightarrow> Some e | Some e0 \<Rightarrow> Some e0)\<rparr>
      | Inr v \<Rightarrow> st\<lparr>tasks := (tasks st)[i := Settled r]\<rparr>)"

text \<open>
  One round of \<^verbatim>\<open>options.metrics.map\<close>: the task of the next metric id runs up to its
  first suspension point. A task whose id is not in the catalog is rejected at once; such
  rejections reach the join in request order, before any answer of the backend.
\<close>

definition spawn ::
  "'b collaborators \<Rightarrow> infra_metrics_request_options \<Rightarrow> 'b run_state \<Rightarrow> string
    \<Rightarrow> 'b run_state" where
  "spawn env options st metricId =
     (let i = length (tasks st) in
      case makeTSVBRequest_start env metricId options of
        Inl e \<Rightarrow>
          st\<lparr>tasks := tasks st @ [Settled (Inl e)],
             trace := trace st @ [EvRejected i e],
             rejection := (case rejection st of None \<Rightarrow> Some e | Some e0 \<Rightarrow> Some e0)\<rparr>
      | Inr (model0, probe) \<Rightarrow>
          st\<lparr>tasks := tasks st @ [AwaitInterval metricId model0 probe],
             trace := trace st @ [EvIntervalProbe i probe (requires model0)]\<rparr>)"

text \<open>
  The backend answers task \<open>i\<close>: the task runs on to its next suspension point or to its
  end. An answer for a task that waits for nothing changes nothing.
\<close>

definition deliver ::
  "'b collaborators \<Rightarrow> infra_metrics_request_options \<Rightarrow> string \<Rightarrow> 'b run_state \<Rightarrow> nat
    \<Rightarrow> 'b run_state" where
  "deliver env options nodeField st i =
     (if i < length (tasks st) then
        (case tasks st ! i of
           AwaitInterval metricId model0 probe \<Rightarrow>
             (case calculateMetricInterval env probe (requires model0) of
                Inl e \<Rightarrow> settle i (Inl e) st
              | Inr calculatedInterval \<Rightarrow>
                  (case makeTSVBRequest_resume env metricId options nodeField model0
                          calculatedInterval of
                     Inl e \<Rightarrow> settle i (Inl e) st
                   | Inr (model, tr, filters) \<Rightarrow>
                       st\<lparr>tasks := (tasks st)[i := AwaitTSVB model tr filters],
                          trace := trace st @ [EvTSVBQuery i model tr filters]\<rparr>))
         | AwaitTSVB model tr filters \<Rightarrow>
             settle i (framework_makeTSVBRequest env model tr filters) st
         | Settled r \<Rightarrow> st)
      else st)"

fun fulfilled :: "'b task \<Rightarrow> tsvb_response option" where
  "fulfilled (Settled (Inr r)) = Some r"
| "fulfilled t = None"

text \<open>
  The joined promise and the handlers on it: rejected with the first rejection, fulfilled
  with the results in task order once every task is fulfilled, pending (\<open>None\<close>) before.
\<close>

definition join_then ::
  "'b collaborators \<Rightarrow> 'b run_state \<Rightarrow> (error + node_details_metric_data list) option" where
  "join_then env st =
     (case rejection st of
        Some e \<Rightarrow> Some (Inl e)
      | None \<Rightarrow>
          (case those (map fulfilled (tasks st)) of
             None \<Rightarrow> None
           | Some results \<Rightarrow> Some (normalize_all env results)))"

subsection \<open>getMetrics\<close>

text \<open>
  \<open>sched\<close> lists, in the order of their arrival, the tasks whose pending backend call is
  answered. The result is the state of the promise \<^verbatim>\<open>getMetrics\<close> returned after these
  answers (\<open>None\<close>: still pending) and the log up to then.
\<close>

definition getMetrics ::
  "'b collaborators \<Rightarrow> nat list \<Rightarrow> infra_metrics_request_options
    \<Rightarrow> (error + node_details_metric_data list) option \<times> 'b event list" where
  "getMetrics env sched options =
     (let indexPattern = metricAlias (sourceConfiguration options) @ '','' @
                         logAlias (sourceConfiguration options);
          nodeField = findInventoryFields env (nodeType options)
                        (sc_fields (sourceConfiguration options));
          log0 = [EvCheckValidNode indexPattern nodeField (nodeId (nodeIds options))]
      in case checkValidNode env indexPattern nodeField (nodeId (nodeIds options)) of
           Inl e \<Rightarrow> (Some (Inl e), log0)
         | Inr validNode \<Rightarrow>
             if \<not> validNode
             then (Some (Inl (nodeDoesNotExistError (nodeId (nodeIds options)))), log0)
             else
               (let requests = foldl (spawn env options)
                                 \<lparr>tasks = [], trace = log0, rejection = None\<rparr> (metrics options);
                    st = foldl (deliver env options nodeField) requests sched
                in (join_then env st, trace st)))"

text \<open>
  Names for the parts of \<open>getMetrics\<close>: the id field of the node type, the existence check
  and its entry in the log, and the state of the tasks after the answers of a schedule when
  the node exists.
\<close>

definition nodeField_of :: "'b collaborators \<Rightarrow> infra_metrics_request_options \<Rightarrow> string" where
  "nodeField_of env options =
     findInventoryFields env (nodeType options) (sc_fields (sourceConfiguration options))"

definition existence_check ::
  "'b collaborators \<Rightarrow> infra_metrics_request_options \<Rightarrow> error + bool" where
  "existence_check env options =
     checkValidNode env
       (metricAlias (sourceConfiguration options) @ '','' @ logAlias (sourceConfiguration options))
       (nodeField_of env options) (nodeId (nodeIds options))"

definition check_event :: "'b collaborators \<Rightarrow> infra_metrics_request_options \<Rightarrow> 'b event" where
  "check_event env options =
     EvCheckValidNode
       (metricAlias (sourceConfiguration options) @ '','' @ logAlias (sourceConfiguration options))
       (nodeField_of env options) (nodeId (nodeIds options))"

definition final_state ::
  "'b collaborators \<Rightarrow> nat list \<Rightarrow> infra_metrics_request_options \<Rightarrow> 'b run_state" where
  "final_state env sched options =
     foldl (deliver env options (nodeField_of env options))
       (foldl (spawn env options)
          \<lparr>tasks = [], trace = [check_event env options], rejection = None\<rparr> (metrics options))
       sched"

subsection \<open>Invariants of a run\<close>

text \<open>
  What holds of every state a run reaches, for the metric ids \<open>ms\<close> whose tasks exist: a
  waiting task carries what \<^verbatim>\<open>makeTSVBRequest\<close> computed for its metric, a settled task
  carries the outcome of \<^verbatim>\<open>makeTSVBRequest\<close> for its metric, every logged call is a call
  \<^verbatim>\<open>makeTSVBRequest\<close> makes for the metric at that position, the joined promise holds the
  first logged rejection, every rejected task is logged, and every task that passed the
  catalog has its interval calculation logged.
\<close>

fun rejected_error :: "'b event \<Rightarrow> error option" where
  "rejected_error (EvRejected i e) = Some e"
| "rejected_error ev = None"

fun is_check :: "'b event \<Rightarrow> bool" where
  "is_check (EvCheckValidNode a b c) = True"
| "is_check ev = False"

definition task_ok ::
  "'b collaborators \<Rightarrow> infra_metrics_request_options \<Rightarrow> string \<Rightarrow> string \<Rightarrow> 'b task \<Rightarrow> bool" where
  "task_ok env options nodeField m t =
     (case t of
        AwaitInterval mid model0 probe \<Rightarrow>
          mid = m \<and> makeTSVBRequest_start env m options = Inr (model0, probe)
      | AwaitTSVB model tr filters \<Rightarrow>
          (\<exists>model0 probe ci.
             makeTSVBRequest_start env m options = Inr (model0, probe) \<and>
             calculateMetricInterval env probe (requires model0) = Inr ci \<and>
             makeTSVBRequest_resume env m options nodeField model0 ci = Inr (model, tr, filters))
      | Settled r \<Rightarrow> r = makeTSVBRequest env m options nodeField)"

definition event_ok ::
  "'b collaborators \<Rightarrow> infra_metrics_request_options \<Rightarrow> string \<Rightarrow> string list \<Rightarrow> 'b event \<Rightarrow> bool" where
  "event_ok env options nodeField ms ev =
     (case ev of
        EvCheckValidNode a b c \<Rightarrow> True
      | EvIntervalProbe i probe req \<Rightarrow>
          i < length ms \<and>
          (\<exists>model0. makeTSVBRequest_start env (ms ! i) options = Inr (model0, probe) \<and>
                    req = requires model0)
      | EvTSVBQuery i model tr filters \<Rightarrow>
          i < length ms \<and>
          (\<exists>model0 probe ci.
             makeTSVBRequest_start env (ms ! i) options = Inr (model0, probe) \<and>
             calculateMetricInterval env probe (requires model0) = Inr ci \<and>
             makeTSVBRequest_resume env (ms ! i) options nodeField model0 ci =
               Inr (model, tr, filters))
      | EvRejected i e \<Rightarrow>
          i < length ms \<and> makeTSVBRequest env (ms ! i) options nodeField = Inl e)"

definition run_inv ::
  "'b collaborators \<Rightarrow> infra_metrics_request_options \<Rightarrow> string \<Rightarrow> string list
    \<Rightarrow> 'b run_state \<Rightarrow> bool" where
  "run_inv env options nodeField ms st =
     (length (tasks st) = length ms \<and>
      (\<forall>i<length ms. task_ok env options nodeField (ms ! i) (tasks st ! i)) \<and>
      (\<forall>ev\<in>set (trace st). event_ok env options nodeField ms ev) \<and>
      rejection st =
        (case List.map_filter rejected_error (trace st) of [] \<Rightarrow> None | e # es \<Rightarrow> Some e) \<and>
      (\<forall>i<length ms. \<forall>e. tasks st ! i = Settled (Inl e) \<longrightarrow> EvRejected i e \<in> set (trace st)) \<and>
      (\<forall>i<length ms. \<forall>model0 probe.
         makeTSVBRequest_start env (ms ! i) options = Inr (model0, probe) \<longrightarrow>
         EvIntervalProbe i probe (requires model0) \<in> set (trace st)))"

text \<open>How many of its two answers a task has received (a settled task waits for none).\<close>

fun progress :: "'b task \<Rightarrow> nat" where
  "progress (AwaitInterval mid model0 probe) = 0"
| "progress (AwaitTSVB model tr filters) = 1"
| "progress (Settled r) = 2"

subsection \<open>A scenario\<close>

text \<open>
  A host with the metrics cpu, memory and load and a cloud-scoped metric. The model of a
  metric records the arguments its creator received. The backend knows the node
  \<open>node-1\<close>, finds a sampling period of 30 seconds for every model that requires a module,
  answers the cpu and memory queries and fails on the load query. The only numbers printed
  are 30 and 0.
\<close>

definition scenario_model ::
  "string \<Rightarrow> string \<Rightarrow> string \<Rightarrow> string \<Rightarrow> (string \<times> string \<times> string) tsvb_model" where
  "scenario_model m timestampField indexPattern interval' =
     \<lparr>requires = (if m = ''memory'' then [] else [''system.'' @ m]),
      interval = interval',
      id_type = (if m = ''awsEC2CpuUtilization'' then Some ''cloud'' else None),
      map_field_to = (if m = ''awsEC2CpuUtilization'' then Some ''cloud.instance.id'' else None),
      template = (m, indexPattern, timestampField)\<rparr>"

definition cpu_panel :: tsvb_panel where
  "cpu_panel = \<lparr>panel_series =
     [\<lparr>tsvb_id = ''cpu'', tsvb_label = ''CPU'', tsvb_data = [(1000, 0.5), (2000, 0.6)]\<rparr>]\<rparr>"

definition memory_panel :: tsvb_panel where
  "memory_panel = \<lparr>panel_series =
     [\<lparr>tsvb_id = ''memory'', tsvb_label = ''Memory'', tsvb_data = [(1000, 40)]\<rparr>]\<rparr>"

definition scenario_env :: "(string \<times> string \<times> string) collaborators" where
  "scenario_env =
     \<lparr>findInventoryFields = (\<lambda>t f. if t = ''host'' then ''host.name'' else ''container.id''),
      checkValidNode = (\<lambda>indexPattern field n. Inr (n = ''node-1'')),
      metrics_tsvb =
        (\<lambda>m. if m \<in> set [''cpu'', ''memory'', ''load'', ''awsEC2CpuUtilization'']
              then Some (scenario_model m) else None),
      calculateMetricInterval = (\<lambda>probe req. if req = [] then Inr None else Inr (Some 30)),
      framework_makeTSVBRequest =
        (\<lambda>model tr filters.
           if fst (template model) = ''cpu'' then Inr [(''cpu'', cpu_panel)]
           else if fst (template model) = ''memory'' then Inr [(''memory'', memory_panel)]
           else if fst (template model) = ''load'' then Inl (Error ''search backend unavailable'')
           else Inr []),
      InventoryMetricRT_is = (\<lambda>k. k \<in> set [''cpu'', ''memory'', ''load'', ''awsEC2CpuUtilization'']),
      number_to_string = (\<lambda>v. if v = 30 then ''30'' else ''0'')\<rparr>"

definition scenario_options :: "string list \<Rightarrow> infra_metrics_request_options" where
  "scenario_options ms =
     \<lparr>nodeType = ''host'',
      nodeIds = \<lparr>nodeId = ''node-1'', cloudId = None\<rparr>,
      metrics = ms,
      timerange = \<lparr>tr_from = 0, tr_to = 10000, tr_interval = ''10s''\<rparr>,
      sourceConfiguration =
        \<lparr>metricAlias = ''metricbeat-*'', logAlias = ''filebeat-*'',
         sc_fields = \<lparr>fields_timestamp = ''@timestamp''\<rparr>\<rparr>\<rparr>"

section \<open>Properties\<close>

subsection \<open>Throwing maps\<close>

lemma map_throw_Inr: "map_throw f xs = Inr ys \<Longrightarrow> map f xs = map Inr ys"
  by (induction xs arbitrary: ys) (auto split: sum.splits)

lemma map_throw_Inr_conv: "map f xs = map Inr ys \<Longrightarrow> map_throw f xs = Inr ys"
  by (induction xs arbitrary: ys) auto

lemma map_throw_Inl:
  "\<forall>x\<in>set pre. \<exists>y. f x = Inr y \<Longrightarrow> f k = Inl e \<Longrightarrow> map_throw f (pre @ k # post) = Inl e"
  by (induction pre) (auto split: sum.splits)

lemma map_Inr_ids:
  "map f xs = map Inr ys \<Longrightarrow> (\<And>x y. f x = Inr y \<Longrightarrow> g y = x) \<Longrightarrow> map g ys = xs"
  by (induction xs arbitrary: ys) auto

subsection \<open>The two parts of a task\<close>

lemma start_Inl_request:
  "makeTSVBRequest_start env m options = Inl e \<Longrightarrow> makeTSVBRequest env m options nf = Inl e"
  by (simp add: makeTSVBRequest_def)

lemma start_Inr_iff:
  "makeTSVBRequest_start env m options = Inr (model0, probe) \<longleftrightarrow>
   (\<exists>createTSVBModel. metrics_tsvb env m = Some createTSVBModel \<and>
      model0 = createTSVBModel (fields_timestamp (sc_fields (sourceConfiguration options)))
                 (metricAlias (sourceConfiguration options) @ '','' @
                  logAlias (sourceConfiguration options))
                 (tr_interval (timerange options)) \<and>
      probe = \<lparr>io_indexPattern = logAlias (sourceConfiguration options) @ '','' @
                                  metricAlias (sourceConfiguration options),
               io_timestampField = fields_timestamp (sc_fields (sourceConfiguration options)),
               io_timerange = timerange options\<rparr>)"
  by (auto simp: makeTSVBRequest_start_def Let_def split: option.splits)

lemma start_Inl_iff:
  "makeTSVBRequest_start env m options = Inl e \<longleftrightarrow>
   metrics_tsvb env m = None \<and> e = missingTSVBModelError m (nodeType options)"
  by (auto simp: makeTSVBRequest_start_def Let_def split: option.splits)

lemma resume_cloud_missing:
  assumes "id_type model0 = Some ''cloud''" "\<not> truthy_string (cloudId (nodeIds options))"
  shows "makeTSVBRequest_resume env m options nf model0 ci
           = Inl (cloudIdMissingError m (nodeId (nodeIds options)))"
  using assms by (cases ci) (simp_all add: makeTSVBRequest_resume_def Let_def)

lemma resume_model:
  assumes "makeTSVBRequest_resume env m options nf model0 ci = Inr (model, tr, filters)"
  shows "model = (case ci of
                    None \<Rightarrow> model0
                  | Some v \<Rightarrow> if v = 0 then model0
                             else model0\<lparr>interval := ''>='' @ number_to_string env v @ ''s''\<rparr>)"
  using assms
  by (cases ci) (auto simp: makeTSVBRequest_resume_def Let_def split: if_splits)

subsection \<open>The invariant is kept\<close>

lemma event_ok_append:
  "event_ok env options nf ms ev \<Longrightarrow> event_ok env options nf (ms @ ms') ev"
  by (cases ev) (auto simp: event_ok_def nth_append)

lemma map_filter_append:
  "List.map_filter f (xs @ ys) = List.map_filter f xs @ List.map_filter f ys"
  by (simp add: List.map_filter_def)

lemma first_rejection_snoc:
  "(case List.map_filter rejected_error (tr @ [EvRejected i e]) of [] \<Rightarrow> None | x # xs \<Rightarrow> Some x) =
   (case (case List.map_filter rejected_error tr of [] \<Rightarrow> None | x # xs \<Rightarrow> Some x) of
      None \<Rightarrow> Some e | Some e0 \<Rightarrow> Some e0)"
  by (simp add: map_filter_append List.map_filter_def split: list.splits)

lemma inv_init:
  "run_inv env options nf [] \<lparr>tasks = [], trace = [EvCheckValidNode a b c], rejection = None\<rparr>"
  by (simp add: run_inv_def event_ok_def List.map_filter_def)

lemma run_invI:
  assumes "length (tasks st) = length ms"
    and "\<And>i. i < length ms \<Longrightarrow> task_ok env options nf (ms ! i) (tasks st ! i)"
    and "\<And>ev. ev \<in> set (trace st) \<Longrightarrow> event_ok env options nf ms ev"
    and "rejection st =
        (case List.map_filter rejected_error (trace st) of [] \<Rightarrow> None | e # es \<Rightarrow> Some e)"
    and "\<And>i e. i < length ms \<Longrightarrow> tasks st ! i = Settled (Inl e) \<Longrightarrow> EvRejected i e \<in> set (trace st)"
    and "\<And>i model0 probe. i < length ms \<Longrightarrow>
           makeTSVBRequest_start env (ms ! i) options = Inr (model0, probe) \<Longrightarrow>
           EvIntervalProbe i probe (requires model0) \<in> set (trace st)"
  shows "run_inv env options nf ms st"
  using assms unfolding run_inv_def by blast

lemma run_inv_length: "run_inv env options nf ms st \<Longrightarrow> length (tasks st) = length ms"
  by (simp add: run_inv_def)

lemma run_inv_task:
  "run_inv env options nf ms st \<Longrightarrow> i < length ms \<Longrightarrow> task_ok env options nf (ms ! i) (tasks st ! i)"
  by (simp add: run_inv_def)

lemma run_inv_event:
  "run_inv env options nf ms st \<Longrightarrow> ev \<in> set (trace st) \<Longrightarrow> event_ok env options nf ms ev"
  by (simp add: run_inv_def)

lemma run_inv_rejection:
  "run_inv env options nf ms st \<Longrightarrow>
   rejection st = (case List.map_filter rejected_error (trace st) of [] \<Rightarrow> None | e # es \<Rightarrow> Some e)"
  by (simp add: run_inv_def)

lemma run_inv_settled:
  "run_inv env options nf ms st \<Longrightarrow> i < length ms \<Longrightarrow> tasks st ! i = Settled (Inl e) \<Longrightarrow>
   EvRejected i e \<in> set (trace st)"
  by (simp add: run_inv_def)

lemma run_inv_probe:
  "run_inv env options nf ms st \<Longrightarrow> i < length ms \<Longrightarrow>
   makeTSVBRequest_start env (ms ! i) options = Inr (model0, probe) \<Longrightarrow>
   EvIntervalProbe i probe (requires model0) \<in> set (trace st)"
  by (simp add: run_inv_def)

lemma inv_spawn:
  assumes inv: "run_inv env options nf ms st"
  shows "run_inv env options nf (ms @ [m]) (spawn env options st m)"
proof -
  note len = run_inv_length [OF inv]
  show ?thesis
  proof (cases "makeTSVBRequest_start env m options")
    case (Inl e)
    define st' where "st' = spawn env options st m"
    have tasks': "tasks st' = tasks st @ [Settled (Inl e)]"
      and trace': "trace st' = trace st @ [EvRejected (length ms) e]"
      and rej': "rejection st' = (case rejection st of None \<Rightarrow> Some e | Some e0 \<Rightarrow> Some e0)"
      using Inl len by (simp_all add: st'_def spawn_def settle_def Let_def list_update_append)
    have req: "makeTSVBRequest env m options nf = Inl e"
      using Inl by (rule start_Inl_request)
    have "run_inv env options nf (ms @ [m]) st'"
    proof (rule run_invI)
      show "length (tasks st') = length (ms @ [m])" using len tasks' by simp
    next
      fix i assume "i < length (ms @ [m])"
      then show "task_ok env options nf ((ms @ [m]) ! i) (tasks st' ! i)"
        using run_inv_task [OF inv, of i] len req
        by (cases "i < length ms") (auto simp: tasks' nth_append task_ok_def)
    next
      fix ev assume "ev \<in> set (trace st')"
      then consider "ev \<in> set (trace st)" | "ev = EvRejected (length ms) e"
        by (auto simp: trace')
      then show "event_ok env options nf (ms @ [m]) ev"
      proof cases
        case 1
        then show ?thesis using run_inv_event [OF inv] event_ok_append by blast
      next
        case 2
        then show ?thesis using req by (simp add: event_ok_def)
      qed
    next
      show "rejection st' =
        (case List.map_filter rejected_error (trace st') of [] \<Rightarrow> None | e # es \<Rightarrow> Some e)"
        unfolding rej' trace' first_rejection_snoc run_inv_rejection [OF inv] ..
    next
      fix i e' assume "i < length (ms @ [m])" "tasks st' ! i = Settled (Inl e')"
      then show "EvRejected i e' \<in> set (trace st')"
        using run_inv_settled [OF inv, of i e'] len
        by (cases "i < length ms") (auto simp: tasks' trace' nth_append)
    next
      fix i model0 probe
      assume "i < length (ms @ [m])"
        "makeTSVBRequest_start env ((ms @ [m]) ! i) options = Inr (model0, probe)"
      then show "EvIntervalProbe i probe (requires model0) \<in> set (trace st')"
        using run_inv_probe [OF inv, of i model0 probe] Inl
        by (cases "i < length ms") (auto simp: trace' nth_append)
    qed
    then show ?thesis by (simp add: st'_def)
  next
    case (Inr p)
    obtain model0 probe where p: "p = (model0, probe)" by (cases p)
    define st' where "st' = spawn env options st m"
    have tasks': "tasks st' = tasks st @ [AwaitInterval m model0 probe]"
      and trace': "trace st' = trace st @ [EvIntervalProbe (length ms) probe (requires model0)]"
      and rej': "rejection st' = rejection st"
      using Inr p len by (simp_all add: st'_def spawn_def Let_def)
    have "run_inv env options nf (ms @ [m]) st'"
    proof (rule run_invI)
      show "length (tasks st') = length (ms @ [m])" using len tasks' by simp
    next
      fix i assume "i < length (ms @ [m])"
      then show "task_ok env options nf ((ms @ [m]) ! i) (tasks st' ! i)"
        using run_inv_task [OF inv, of i] len Inr p
        by (cases "i < length ms") (auto simp: tasks' nth_append task_ok_def)
    next
      fix ev assume "ev \<in> set (trace st')"
      then consider "ev \<in> set (trace st)"
        | "ev = EvIntervalProbe (length ms) probe (requires model0)"
        by (auto simp: trace')
      then show "event_ok env options nf (ms @ [m]) ev"
      proof cases
        case 1
        then show ?thesis using run_inv_event [OF inv] event_ok_append by blast
      next
        case 2
        then show ?thesis using Inr p by (simp add: event_ok_def)
      qed
    next
      show "rejection st' =
        (case List.map_filter rejected_error (trace st') of [] \<Rightarrow> None | e # es \<Rightarrow> Some e)"
        unfolding rej' trace' run_inv_rejection [OF inv]
        by (simp add: map_filter_append List.map_filter_def)
    next
      fix i e' assume "i < length (ms @ [m])" "tasks st' ! i = Settled (Inl e')"
      then show "EvRejected i e' \<in> set (trace st')"
        using run_inv_settled [OF inv, of i e'] len
        by (cases "i < length ms") (auto simp: tasks' trace' nth_append)
    next
      fix i model0' probe'
      assume "i < length (ms @ [m])"
        "makeTSVBRequest_start env ((ms @ [m]) ! i) options = Inr (model0', probe')"
      then show "EvIntervalProbe i probe' (requires model0') \<in> set (trace st')"
        using run_inv_probe [OF inv, of i model0' probe'] Inr p
        by (cases "i < length ms") (auto simp: trace' nth_append)
    qed
    then show ?thesis by (simp add: st'_def)
  qed
qed

lemma inv_spawn_all:
  "run_inv env options nf ms st \<Longrightarrow>
   run_inv env options nf (ms @ ms') (foldl (spawn env options) st ms')"
proof (induction ms' arbitrary: ms st)
  case Nil
  then show ?case by simp
next
  case (Cons m ms')
  from inv_spawn [OF Cons.prems, of m]
  have "run_inv env options nf ((ms @ [m]) @ ms') (foldl (spawn env options) (spawn env options st m) ms')"
    by (rule Cons.IH)
  then show ?case by simp
qed

lemma inv_settle:
  assumes inv: "run_inv env options nf ms st"
    and i: "i < length ms"
    and r: "makeTSVBRequest env (ms ! i) options nf = r"
  shows "run_inv env options nf ms (settle i r st)"
proof -
  note len = run_inv_length [OF inv]
  define st' where "st' = settle i r st"
  have tasks': "tasks st' = (tasks st)[i := Settled r]"
    by (cases r) (simp_all add: st'_def settle_def)
  have "run_inv env options nf ms st'"
  proof (cases r)
    case (Inl e)
    have trace': "trace st' = trace st @ [EvRejected i e]"
      and rej': "rejection st' = (case rejection st of None \<Rightarrow> Some e | Some e0 \<Rightarrow> Some e0)"
      using Inl by (simp_all add: st'_def settle_def)
    show ?thesis
    proof (rule run_invI)
      show "length (tasks st') = length ms" using len tasks' by simp
    next
      fix j assume "j < length ms"
      then show "task_ok env options nf (ms ! j) (tasks st' ! j)"
        using run_inv_task [OF inv, of j] len r
        by (cases "j = i") (auto simp: tasks' task_ok_def)
    next
      fix ev assume "ev \<in> set (trace st')"
      then consider "ev \<in> set (trace st)" | "ev = EvRejected i e"
        by (auto simp: trace')
      then show "event_ok env options nf ms ev"
      proof cases
        case 1
        then show ?thesis using run_inv_event [OF inv] by blast
      next
        case 2
        then show ?thesis using r Inl i by (simp add: event_ok_def)
      qed
    next
      show "rejection st' =
        (case List.map_filter rejected_error (trace st') of [] \<Rightarrow> None | e # es \<Rightarrow> Some e)"
        unfolding rej' trace' first_rejection_snoc run_inv_rejection [OF inv] ..
    next
      fix j e' assume "j < length ms" "tasks st' ! j = Settled (Inl e')"
      then show "EvRejected j e' \<in> set (trace st')"
        using run_inv_settled [OF inv, of j e'] len Inl
        by (cases "j = i") (auto simp: tasks' trace')
    next
      fix j model0 probe
      assume "j < length ms" "makeTSVBRequest_start env (ms ! j) options = Inr (model0, probe)"
      then show "EvIntervalProbe j probe (requires model0) \<in> set (trace st')"
        using run_inv_probe [OF inv, of j model0 probe] by (simp add: trace')
    qed
  next
    case (Inr v)
    have trace': "trace st' = trace st" and rej': "rejection st' = rejection st"
      using Inr by (simp_all add: st'_def settle_def)
    show ?thesis
    proof (rule run_invI)
      show "length (tasks st') = length ms" using len tasks' by simp
    next
      fix j assume "j < length ms"
      then show "task_ok env options nf (ms ! j) (tasks st' ! j)"
        using run_inv_task [OF inv, of j] len r
        by (cases "j = i") (auto simp: tasks' task_ok_def)
    next
      fix ev assume "ev \<in> set (trace st')"
      then show "event_ok env options nf ms ev"
        using run_inv_event [OF inv] by (simp add: trace')
    next
      show "rejection st' =
        (case List.map_filter rejected_error (trace st') of [] \<Rightarrow> None | e # es \<Rightarrow> Some e)"
        unfolding rej' trace' by (rule run_inv_rejection [OF inv])
    next
      fix j e' assume "j < length ms" "tasks st' ! j = Settled (Inl e')"
      then show "EvRejected j e' \<in> set (trace st')"
        using run_inv_settled [OF inv, of j e'] len Inr
        by (cases "j = i") (auto simp: tasks' trace')
    next
      fix j model0 probe
      assume "j < length ms" "makeTSVBRequest_start env (ms ! j) options = Inr (model0, probe)"
      then show "EvIntervalProbe j probe (requires model0) \<in> set (trace st')"
        using run_inv_probe [OF inv, of j model0 probe] by (simp add: trace')
    qed
  qed
  then show ?thesis by (simp add: st'_def)
qed

lemma inv_dispatch:
  assumes inv: "run_inv env options nf ms st"
    and i: "i < length ms"
    and start: "makeTSVBRequest_start env (ms ! i) options = Inr (model0, probe)"
    and calc: "calculateMetricInterval env probe (requires model0) = Inr ci"
    and resume: "makeTSVBRequest_resume env (ms ! i) options nf model0 ci = Inr (model, tr, filters)"
  shows "run_inv env options nf ms
           (st\<lparr>tasks := (tasks st)[i := AwaitTSVB model tr filters],
              trace := trace st @ [EvTSVBQuery i model tr filters]\<rparr>)"
proof -
  note len = run_inv_length [OF inv]
  define st' where "st' = st\<lparr>tasks := (tasks st)[i := AwaitTSVB model tr filters],
              trace := trace st @ [EvTSVBQuery i model tr filters]\<rparr>"
  have tasks': "tasks st' = (tasks st)[i := AwaitTSVB model tr filters]"
    and trace': "trace st' = trace st @ [EvTSVBQuery i model tr filters]"
    and rej': "rejection st' = rejection st"
    by (simp_all add: st'_def)
  have "run_inv env options nf ms st'"
  proof (rule run_invI)
    show "length (tasks st') = length ms" using len tasks' by simp
  next
    fix j assume "j < length ms"
    then show "task_ok env options nf (ms ! j) (tasks st' ! j)"
      using run_inv_task [OF inv, of j] len start calc resume
      by (cases "j = i") (auto simp: tasks' task_ok_def)
  next
    fix ev assume "ev \<in> set (trace st')"
    then consider "ev \<in> set (trace st)" | "ev = EvTSVBQuery i model tr filters"
      by (auto simp: trace')
    then show "event_ok env options nf ms ev"
    proof cases
      case 1
      then show ?thesis using run_inv_event [OF inv] by blast
    next
      case 2
      then show ?thesis using i start calc resume by (simp add: event_ok_def)
    qed
  next
    show "rejection st' =
      (case List.map_filter rejected_error (trace st') of [] \<Rightarrow> None | e # es \<Rightarrow> Some e)"
      unfolding rej' trace' run_inv_rejection [OF inv]
      by (simp add: map_filter_append List.map_filter_def)
  next
    fix j e' assume "j < length ms" "tasks st' ! j = Settled (Inl e')"
    then show "EvRejected j e' \<in> set (trace st')"
      using run_inv_settled [OF inv, of j e'] len
      by (cases "j = i") (auto simp: tasks' trace')
  next
    fix j model0' probe'
    assume "j < length ms" "makeTSVBRequest_start env (ms ! j) options = Inr (model0', probe')"
    then show "EvIntervalProbe j probe' (requires model0') \<in> set (trace st')"
      using run_inv_probe [OF inv, of j model0' probe'] by (simp add: trace')
  qed
  then show ?thesis by (simp add: st'_def)
qed

lemma inv_deliver:
  assumes inv: "run_inv env options nf ms st"
  shows "run_inv env options nf ms (deliver env options nf st i)"
proof (cases "i < length ms")
  case False
  then show ?thesis using inv run_inv_length [OF inv] by (simp add: deliver_def)
next
  case True
  note len = run_inv_length [OF inv]
  note ok = run_inv_task [OF inv True]
  show ?thesis
  proof (cases "tasks st ! i")
    case (AwaitInterval mid model0 probe)
    with ok have mid: "mid = ms ! i"
      and start: "makeTSVBRequest_start env (ms ! i) options = Inr (model0, probe)"
      by (simp_all add: task_ok_def)
    show ?thesis
    proof (cases "calculateMetricInterval env probe (requires model0)")
      case (Inl e)
      then have "makeTSVBRequest env (ms ! i) options nf = Inl e"
        using start by (simp add: makeTSVBRequest_def)
      from inv_settle [OF inv True this] show ?thesis
        using True len AwaitInterval Inl by (simp add: deliver_def)
    next
      case (Inr ci)
      show ?thesis
      proof (cases "makeTSVBRequest_resume env (ms ! i) options nf model0 ci")
        case (Inl e)
        then have "makeTSVBRequest env (ms ! i) options nf = Inl e"
          using start Inr by (simp add: makeTSVBRequest_def)
        from inv_settle [OF inv True this] show ?thesis
          using True len AwaitInterval Inr Inl mid by (simp add: deliver_def)
      next
        case res: (Inr q)
        obtain model tr filters where q: "q = (model, tr, filters)" by (cases q)
        from inv_dispatch [OF inv True start Inr res [unfolded q]] show ?thesis
          using True len AwaitInterval Inr res q mid by (simp add: deliver_def)
      qed
    qed
  next
    case (AwaitTSVB model tr filters)
    with ok obtain model0 probe ci where
      "makeTSVBRequest_start env (ms ! i) options = Inr (model0, probe)"
      "calculateMetricInterval env probe (requires model0) = Inr ci"
      "makeTSVBRequest_resume env (ms ! i) options nf model0 ci = Inr (model, tr, filters)"
      by (auto simp: task_ok_def)
    then have "makeTSVBRequest env (ms ! i) options nf = framework_makeTSVBRequest env model tr filters"
      by (simp add: makeTSVBRequest_def)
    from inv_settle [OF inv True this] show ?thesis
      using True len AwaitTSVB by (simp add: deliver_def)
  next
    case (Settled r)
    then show ?thesis using inv True len by (simp add: deliver_def)
  qed
qed

lemma inv_run:
  "run_inv env options nf ms st \<Longrightarrow>
   run_inv env options nf ms (foldl (deliver env options nf) st sched)"
  by (induction sched arbitrary: st) (simp_all add: inv_deliver)

subsection \<open>getMetrics by the outcome of the existence check\<close>

lemma getMetrics_valid:
  "existence_check env options = Inr True \<Longrightarrow>
   getMetrics env sched options =
     (join_then env (final_state env sched options), trace (final_state env sched options))"
  by (simp add: getMetrics_def existence_check_def nodeField_of_def final_state_def
        check_event_def Let_def)

lemma getMetrics_invalid:
  "existence_check env options = Inr False \<Longrightarrow>
   getMetrics env sched options =
     (Some (Inl (nodeDoesNotExistError (nodeId (nodeIds options)))), [check_event env options])"
  by (simp add: getMetrics_def existence_check_def nodeField_of_def check_event_def Let_def)

lemma getMetrics_check_failed:
  "existence_check env options = Inl e \<Longrightarrow>
   getMetrics env sched options = (Some (Inl e), [check_event env options])"
  by (simp add: getMetrics_def existence_check_def nodeField_of_def check_event_def Let_def)

lemma fulfilled_result:
  assumes "fst (getMetrics env sched options) = Some (Inr out)"
  shows "existence_check env options = Inr True"
proof (cases "existence_check env options")
  case (Inl e)
  with assms show ?thesis by (simp add: getMetrics_check_failed)
next
  case (Inr b)
  with assms show ?thesis by (cases b) (simp_all add: getMetrics_invalid)
qed

lemma final_state_inv:
  "run_inv env options (nodeField_of env options) (metrics options) (final_state env sched options)"
  unfolding final_state_def check_event_def
  using inv_run [OF inv_spawn_all [OF inv_init, where ms' = "metrics options"]]
  by simp

lemma final_state_length:
  "length (tasks (final_state env sched options)) = length (metrics options)"
  by (rule run_inv_length [OF final_state_inv])

lemma getMetrics_events:
  assumes "ev \<in> set (snd (getMetrics env sched options))"
  shows "event_ok env options (nodeField_of env options) (metrics options) ev"
proof (cases "existence_check env options")
  case (Inl e)
  with assms show ?thesis
    by (simp add: getMetrics_check_failed check_event_def event_ok_def)
next
  case (Inr b)
  show ?thesis
  proof (cases b)
    case True
    with Inr assms show ?thesis
      using run_inv_event [OF final_state_inv] by (simp add: getMetrics_valid)
  next
    case False
    with Inr assms show ?thesis
      by (simp add: getMetrics_invalid check_event_def event_ok_def)
  qed
qed

subsection \<open>Tasks run to their end\<close>

lemma settle_tasks: "tasks (settle i r st) = (tasks st)[i := Settled r]"
  by (cases r) (simp_all add: settle_def)

lemma deliver_length: "length (tasks (deliver env options nf st i)) = length (tasks st)"
  by (simp add: deliver_def settle_tasks split: task.splits sum.splits prod.splits)

lemma deliver_nth_other:
  "j \<noteq> i \<Longrightarrow> tasks (deliver env options nf st i) ! j = tasks st ! j"
  by (simp add: deliver_def settle_tasks split: task.splits sum.splits prod.splits)

lemma deliver_progress_self:
  "i < length (tasks st) \<Longrightarrow>
   min 2 (Suc (progress (tasks st ! i))) \<le> progress (tasks (deliver env options nf st i) ! i)"
  by (cases "tasks st ! i")
     (auto simp: deliver_def settle_tasks split: sum.splits prod.splits)

lemma deliver_progress_other:
  "j < length (tasks st) \<Longrightarrow>
   progress (tasks st ! j) \<le> progress (tasks (deliver env options nf st i) ! j)"
proof (cases "j = i")
  case True
  assume "j < length (tasks st)"
  with True deliver_progress_self [of i st env options nf]
  have "min 2 (Suc (progress (tasks st ! j))) \<le> progress (tasks (deliver env options nf st i) ! j)"
    by simp
  moreover have "progress (tasks st ! j) \<le> 2" by (cases "tasks st ! j") simp_all
  ultimately show ?thesis by simp
next
  case False
  then show ?thesis by (simp add: deliver_nth_other)
qed

lemma run_progress:
  "j < length (tasks st) \<Longrightarrow>
   min 2 (progress (tasks st ! j) + count_list sched j)
     \<le> progress (tasks (foldl (deliver env options nf) st sched) ! j)"
proof (induction sched arbitrary: st)
  case Nil
  then show ?case by simp
next
  case (Cons i sched)
  let ?st = "deliver env options nf st i"
  have j: "j < length (tasks ?st)" using Cons.prems by (simp add: deliver_length)
  note IH = Cons.IH [OF j]
  show ?case
  proof (cases "i = j")
    case True
    have "min 2 (Suc (progress (tasks st ! j))) \<le> progress (tasks ?st ! j)"
      using deliver_progress_self [of j st env options nf] Cons.prems True by simp
    then have "min 2 (progress (tasks st ! j) + count_list (i # sched) j)
        \<le> min 2 (progress (tasks ?st ! j) + count_list sched j)"
      using True by simp
    with IH show ?thesis by simp
  next
    case False
    have "progress (tasks st ! j) \<le> progress (tasks ?st ! j)"
      using deliver_progress_other [OF Cons.prems] .
    then have "min 2 (progress (tasks st ! j) + count_list (i # sched) j)
        \<le> min 2 (progress (tasks ?st ! j) + count_list sched j)"
      using False by simp
    with IH show ?thesis by simp
  qed
qed

lemma count_list_pos: "x \<in> set xs \<Longrightarrow> 1 \<le> count_list xs x"
  by (induction xs) auto

lemma settled_outcome:
  assumes "run_inv env options nf ms st" "i < length ms" "progress (tasks st ! i) = 2"
  shows "tasks st ! i = Settled (makeTSVBRequest env (ms ! i) options nf)"
  using run_inv_task [OF assms(1,2)] assms(3)
  by (cases "tasks st ! i") (simp_all add: task_ok_def)

lemma final_state_settled:
  assumes "i < length (metrics options)" "2 \<le> count_list sched i"
  shows "tasks (final_state env sched options) ! i =
           Settled (makeTSVBRequest env (metrics options ! i) options (nodeField_of env options))"
proof -
  let ?requests = "foldl (spawn env options)
          \<lparr>tasks = [], trace = [check_event env options], rejection = None\<rparr> (metrics options)"
  have "length (tasks ?requests) = length (metrics options)"
    using final_state_length [of env "[]" options] by (simp add: final_state_def)
  with assms(1) have "i < length (tasks ?requests)" by simp
  from run_progress [OF this, of sched env options "nodeField_of env options"] assms(2)
  have "2 \<le> progress (tasks (final_state env sched options) ! i)"
    by (simp add: final_state_def)
  moreover have "progress (tasks (final_state env sched options) ! i) \<le> 2"
    by (cases "tasks (final_state env sched options) ! i") simp_all
  ultimately have "progress (tasks (final_state env sched options) ! i) = 2" by simp
  from settled_outcome [OF final_state_inv assms(1) this] show ?thesis .
qed

subsection \<open>The join\<close>

lemma those_Some_iff: "those xs = Some ys \<longleftrightarrow> xs = map Some ys"
  by (induction xs arbitrary: ys) (auto split: option.splits)

lemma fulfilled_Some_iff: "fulfilled t = Some r \<longleftrightarrow> t = Settled (Inr r)"
  by (cases t rule: fulfilled.cases) auto

lemma first_rejection_None_iff:
  "List.map_filter rejected_error tr = [] \<longleftrightarrow> (\<forall>i e. EvRejected i e \<notin> set tr)"
proof (induction tr)
  case Nil
  then show ?case by (simp add: List.map_filter_def)
next
  case (Cons ev tr)
  then show ?case by (cases ev) (auto simp: List.map_filter_def)
qed

lemma first_rejection_Cons:
  "List.map_filter rejected_error tr = e # es \<Longrightarrow>
   \<exists>i pre post. tr = pre @ EvRejected i e # post \<and> (\<forall>j e'. EvRejected j e' \<notin> set pre)"
proof (induction tr)
  case Nil
  then show ?case by (simp add: List.map_filter_def)
next
  case (Cons ev tr)
  show ?case
  proof (cases "rejected_error ev")
    case None
    with Cons.prems have "List.map_filter rejected_error tr = e # es"
      by (simp add: List.map_filter_def)
    from Cons.IH [OF this] obtain i pre post where
      tr: "tr = pre @ EvRejected i e # post" and pre: "\<forall>j e'. EvRejected j e' \<notin> set pre"
      by blast
    have "ev # tr = (ev # pre) @ EvRejected i e # post" using tr by simp
    moreover have "\<forall>j e'. EvRejected j e' \<notin> set (ev # pre)"
      using pre None by (cases ev) auto
    ultimately show ?thesis by blast
  next
    case (Some e0)
    then obtain i where ev: "ev = EvRejected i e0" by (cases ev) auto
    with Cons.prems have "e0 = e" by (simp add: List.map_filter_def)
    with ev have "ev # tr = [] @ EvRejected i e # tr" by simp
    then show ?thesis by (metis empty_iff list.set(1))
  qed
qed

lemma all_fulfilled:
  assumes inv: "run_inv env options nf ms st"
    and th: "those (map fulfilled (tasks st)) = Some results"
  shows "map (\<lambda>m. makeTSVBRequest env m options nf) ms = map Inr results"
proof -
  from th have mf: "map fulfilled (tasks st) = map Some results" by (simp add: those_Some_iff)
  note len = run_inv_length [OF inv]
  from mf have lr: "length results = length ms" using len by (metis length_map)
  show ?thesis
  proof (rule nth_equalityI)
    show "length (map (\<lambda>m. makeTSVBRequest env m options nf) ms) = length (map Inr results)"
      using lr by simp
  next
    fix i assume "i < length (map (\<lambda>m. makeTSVBRequest env m options nf) ms)"
    then have i: "i < length ms" by simp
    from mf i len lr have "fulfilled (tasks st ! i) = Some (results ! i)"
      by (metis nth_map)
    then have "tasks st ! i = Settled (Inr (results ! i))" by (simp add: fulfilled_Some_iff)
    with run_inv_task [OF inv i]
    have "makeTSVBRequest env (ms ! i) options nf = Inr (results ! i)"
      by (simp add: task_ok_def)
    with i lr show "map (\<lambda>m. makeTSVBRequest env m options nf) ms ! i = map Inr results ! i"
      by simp
  qed
qed

text \<open>A fulfilled join: every task has succeeded, and the results stand in task order.\<close>

lemma join_then_Inr:
  assumes inv: "run_inv env options nf ms st"
    and res: "join_then env st = Some (Inr out)"
  shows "\<exists>raws. map (\<lambda>m. makeTSVBRequest env m options nf) ms = map Inr raws \<and>
                normalize_all env raws = Inr out"
proof -
  from res have rej: "rejection st = None"
    by (cases "rejection st") (simp_all add: join_then_def)
  with res obtain results where
    th: "those (map fulfilled (tasks st)) = Some results" and out: "normalize_all env results = Inr out"
    by (auto simp: join_then_def split: option.splits)
  from all_fulfilled [OF inv th] out show ?thesis by blast
qed

text \<open>No task has failed: the join is not rejected.\<close>

lemma no_rejection:
  assumes inv: "run_inv env options nf ms st"
    and ok: "map (\<lambda>m. makeTSVBRequest env m options nf) ms = map Inr raws"
  shows "rejection st = None"
proof -
  have "EvRejected i e \<notin> set (trace st)" for i e
  proof
    assume "EvRejected i e \<in> set (trace st)"
    from run_inv_event [OF inv this]
    have i: "i < length ms" and "makeTSVBRequest env (ms ! i) options nf = Inl e"
      by (simp_all add: event_ok_def)
    moreover from ok i have "makeTSVBRequest env (ms ! i) options nf = Inr (raws ! i)"
      by (metis length_map nth_map)
    ultimately show False by simp
  qed
  then have "List.map_filter rejected_error (trace st) = []"
    by (simp add: first_rejection_None_iff)
  then show ?thesis by (simp add: run_inv_rejection [OF inv])
qed

lemma join_then_all_settled:
  assumes inv: "run_inv env options nf ms st"
    and ok: "map (\<lambda>m. makeTSVBRequest env m options nf) ms = map Inr raws"
    and fin: "\<And>i. i < length ms \<Longrightarrow> progress (tasks st ! i) = 2"
  shows "join_then env st = Some (normalize_all env raws)"
proof -
  note len = run_inv_length [OF inv]
  from ok have lr: "length raws = length ms" by (metis length_map)
  have "map fulfilled (tasks st) = map Some raws"
  proof (rule nth_equalityI)
    show "length (map fulfilled (tasks st)) = length (map Some raws)" using len lr by simp
  next
    fix i assume "i < length (map fulfilled (tasks st))"
    then have i: "i < length ms" using len by simp
    from settled_outcome [OF inv i fin [OF i]] ok i
    have "tasks st ! i = Settled (Inr (raws ! i))" by (metis length_map nth_map)
    then show "map fulfilled (tasks st) ! i = map Some raws ! i"
      using i len lr by simp
  qed
  then have "those (map fulfilled (tasks st)) = Some raws" by (simp add: those_Some_iff)
  with no_rejection [OF inv ok] show ?thesis by (simp add: join_then_def)
qed

text \<open>A rejected join carries the error of the first rejection in the log, which is the
  outcome of the task it names.\<close>

lemma rejection_first:
  assumes inv: "run_inv env options nf ms st"
    and rej: "rejection st = Some e"
  shows "\<exists>j pre post. j < length ms \<and> makeTSVBRequest env (ms ! j) options nf = Inl e \<and>
           trace st = pre @ EvRejected j e # post \<and> (\<forall>k e'. EvRejected k e' \<notin> set pre)"
proof -
  from rej run_inv_rejection [OF inv]
  obtain es where "List.map_filter rejected_error (trace st) = e # es"
    by (auto split: list.splits)
  from first_rejection_Cons [OF this] obtain j pre post where
    tr: "trace st = pre @ EvRejected j e # post" and pre: "\<forall>k e'. EvRejected k e' \<notin> set pre"
    by blast
  then have "EvRejected j e \<in> set (trace st)" by simp
  from run_inv_event [OF inv this]
  have "j < length ms" "makeTSVBRequest env (ms ! j) options nf = Inl e"
    by (simp_all add: event_ok_def)
  with tr pre show ?thesis by blast
qed

lemma settled_failure_rejects:
  assumes inv: "run_inv env options nf ms st"
    and i: "i < length ms"
    and fail: "makeTSVBRequest env (ms ! i) options nf = Inl e"
    and fin: "progress (tasks st ! i) = 2"
  shows "\<exists>e'. rejection st = Some e'"
proof -
  from settled_outcome [OF inv i fin] fail have "tasks st ! i = Settled (Inl e)" by simp
  from run_inv_settled [OF inv i this] have "List.map_filter rejected_error (trace st) \<noteq> []"
    by (auto simp: first_rejection_None_iff)
  then show ?thesis by (simp add: run_inv_rejection [OF inv] split: list.splits)
qed

lemma failing_task_no_result:
  assumes "existence_check env options = Inr True"
    and "i < length (metrics options)"
    and "makeTSVBRequest env (metrics options ! i) options (nodeField_of env options) = Inl e"
  shows "fst (getMetrics env sched options) \<noteq> Some (Inr out)"
proof
  assume "fst (getMetrics env sched options) = Some (Inr out)"
  then have "join_then env (final_state env sched options) = Some (Inr out)"
    by (simp add: getMetrics_valid [OF assms(1)])
  from join_then_Inr [OF final_state_inv this] obtain raws where
    "map (\<lambda>m. makeTSVBRequest env m options (nodeField_of env options)) (metrics options)
       = map Inr raws" by blast
  with assms(2)
  have "makeTSVBRequest env (metrics options ! i) options (nodeField_of env options)
          = Inr (raws ! i)"
    by (metis length_map nth_map)
  with assms(3) show False by simp
qed

lemma normalize_all_Inr:
  "normalize_all env raws = Inr out \<longleftrightarrow>
   (\<exists>parts. map (normalize_result env) raws = map Inr parts \<and> out = concat parts)"
proof
  assume "normalize_all env raws = Inr out"
  then obtain parts where "map_throw (normalize_result env) raws = Inr parts" "out = concat parts"
    by (auto simp: normalize_all_def split: sum.splits)
  then show "\<exists>parts. map (normalize_result env) raws = map Inr parts \<and> out = concat parts"
    using map_throw_Inr by blast
next
  assume "\<exists>parts. map (normalize_result env) raws = map Inr parts \<and> out = concat parts"
  then show "normalize_all env raws = Inr out"
    by (auto simp: normalize_all_def dest: map_throw_Inr_conv)
qed

subsection \<open>The first rejection is kept\<close>

text \<open>The joined promise keeps its first rejection.\<close>

lemma settle_rejection_Some:
  "rejection st = Some e \<Longrightarrow> rejection (settle i r st) = Some e"
  by (cases r) (simp_all add: settle_def)

lemma deliver_rejection_Some:
  "rejection st = Some e \<Longrightarrow> rejection (deliver env options nf st i) = Some e"
  by (simp add: deliver_def settle_rejection_Some split: task.splits sum.splits prod.splits)

lemma run_rejection_Some:
  "rejection st = Some e \<Longrightarrow> rejection (foldl (deliver env options nf) st sched) = Some e"
  by (induction sched arbitrary: st) (simp_all add: deliver_rejection_Some)

lemma spawn_rejection:
  "rejection (spawn env options st m) =
     (case rejection st of
        Some e0 \<Rightarrow> Some e0
      | None \<Rightarrow> (case makeTSVBRequest_start env m options of Inl e \<Rightarrow> Some e | Inr p \<Rightarrow> None))"
  by (cases "makeTSVBRequest_start env m options")
     (auto simp: spawn_def settle_def Let_def split: option.splits)

lemma spawn_all_rejection_Some:
  "rejection st = Some e \<Longrightarrow> rejection (foldl (spawn env options) st ms) = Some e"
  by (induction ms arbitrary: st) (simp_all add: spawn_rejection)

lemma spawn_all_rejection_None:
  "rejection st = None \<Longrightarrow> \<forall>x\<in>set ms. metrics_tsvb env x \<noteq> None \<Longrightarrow>
   rejection (foldl (spawn env options) st ms) = None"
proof (induction ms arbitrary: st)
  case Nil
  then show ?case by simp
next
  case (Cons m ms)
  from Cons.prems(2) obtain p where "makeTSVBRequest_start env m options = Inr p"
    by (cases "makeTSVBRequest_start env m options") (auto simp: start_Inl_iff)
  with Cons.prems(1) have "rejection (spawn env options st m) = None"
    by (simp add: spawn_rejection)
  with Cons.IH [of "spawn env options st m"] Cons.prems(2) show ?case by simp
qed

lemma first_unknown_metric:
  assumes "rejection st = None"
    and "\<forall>x\<in>set pre. metrics_tsvb env x \<noteq> None"
    and "metrics_tsvb env m = None"
  shows "rejection (foldl (deliver env options nf)
                     (foldl (spawn env options) st (pre @ m # post)) sched)
           = Some (missingTSVBModelError m (nodeType options))"
proof -
  let ?st1 = "foldl (spawn env options) st pre"
  have "rejection ?st1 = None" using assms(1,2) by (rule spawn_all_rejection_None)
  moreover have "makeTSVBRequest_start env m options
                   = Inl (missingTSVBModelError m (nodeType options))"
    using assms(3) by (simp add: start_Inl_iff)
  ultimately have "rejection (spawn env options ?st1 m)
                     = Some (missingTSVBModelError m (nodeType options))"
    by (simp add: spawn_rejection)
  then have "rejection (foldl (spawn env options) st (pre @ m # post))
               = Some (missingTSVBModelError m (nodeType options))"
    by (simp add: spawn_all_rejection_Some)
  then show ?thesis by (rule run_rejection_Some)
qed

subsection \<open>The shape of the log\<close>

lemma settle_trace:
  "\<exists>later. trace (settle i r st) = trace st @ later \<and> (\<forall>ev\<in>set later. \<not> is_check ev)"
  by (cases r) (simp_all add: settle_def)

lemma spawn_trace:
  "\<exists>later. trace (spawn env options st m) = trace st @ later \<and> (\<forall>ev\<in>set later. \<not> is_check ev)"
  by (cases "makeTSVBRequest_start env m options")
     (auto simp: spawn_def settle_def Let_def)

lemma deliver_trace:
  "\<exists>later. trace (deliver env options nf st i) = trace st @ later \<and>
     (\<forall>ev\<in>set later. \<not> is_check ev)"
proof (cases "i < length (tasks st)")
  case False
  then show ?thesis by (simp add: deliver_def)
next
  case True
  show ?thesis
  proof (cases "tasks st ! i")
    case (AwaitInterval mid model0 probe)
    then show ?thesis
      using True settle_trace [of i _ st]
      by (auto simp: deliver_def split: sum.splits)
  next
    case (AwaitTSVB model tr filters)
    then show ?thesis using True settle_trace [of i _ st] by (simp add: deliver_def)
  next
    case (Settled r)
    then show ?thesis using True by (simp add: deliver_def)
  qed
qed

lemma spawn_all_trace:
  "\<exists>later. trace (foldl (spawn env options) st ms) = trace st @ later \<and>
     (\<forall>ev\<in>set later. \<not> is_check ev)"
proof (induction ms arbitrary: st)
  case Nil
  then show ?case by simp
next
  case (Cons m ms)
  from spawn_trace [of env options st m] obtain l1 where
    l1: "trace (spawn env options st m) = trace st @ l1" "\<forall>ev\<in>set l1. \<not> is_check ev"
    by blast
  from Cons.IH [of "spawn env options st m"] obtain l2 where
    l2: "trace (foldl (spawn env options) (spawn env options st m) ms) =
           trace (spawn env options st m) @ l2" "\<forall>ev\<in>set l2. \<not> is_check ev"
    by blast
  have "trace (foldl (spawn env options) st (m # ms)) = trace st @ (l1 @ l2)"
    using l1 l2 by simp
  moreover have "\<forall>ev\<in>set (l1 @ l2). \<not> is_check ev" using l1 l2 by auto
  ultimately show ?case by blast
qed

lemma run_trace:
  "\<exists>later. trace (foldl (deliver env options nf) st sched) = trace st @ later \<and>
     (\<forall>ev\<in>set later. \<not> is_check ev)"
proof (induction sched arbitrary: st)
  case Nil
  then show ?case by simp
next
  case (Cons i sched)
  from deliver_trace [of env options nf st i] obtain l1 where
    l1: "trace (deliver env options nf st i) = trace st @ l1" "\<forall>ev\<in>set l1. \<not> is_check ev"
    by blast
  from Cons.IH [of "deliver env options nf st i"] obtain l2 where
    l2: "trace (foldl (deliver env options nf) (deliver env options nf st i) sched) =
           trace (deliver env options nf st i) @ l2" "\<forall>ev\<in>set l2. \<not> is_check ev"
    by blast
  have "trace (foldl (deliver env options nf) st (i # sched)) = trace st @ (l1 @ l2)"
    using l1 l2 by simp
  moreover have "\<forall>ev\<in>set (l1 @ l2). \<not> is_check ev" using l1 l2 by auto
  ultimately show ?case by blast
qed

lemma final_state_trace:
  "\<exists>rest. trace (final_state env sched options) = check_event env options # rest \<and>
     (\<forall>ev\<in>set rest. \<not> is_check ev)"
proof -
  let ?st0 = "\<lparr>tasks = [], trace = [check_event env options], rejection = None\<rparr> :: 'a run_state"
  let ?requests = "foldl (spawn env options) ?st0 (metrics options)"
  from spawn_all_trace [of env options ?st0 "metrics options"] obtain l1 where
    l1: "trace ?requests = [check_event env options] @ l1" "\<forall>ev\<in>set l1. \<not> is_check ev"
    by auto
  from run_trace [of env options "nodeField_of env options" ?requests sched] obtain l2 where
    l2: "trace (final_state env sched options) = trace ?requests @ l2"
      "\<forall>ev\<in>set l2. \<not> is_check ev"
    by (auto simp: final_state_def)
  have "trace (final_state env sched options) = check_event env options # (l1 @ l2)"
    using l1 l2 by simp
  moreover have "\<forall>ev\<in>set (l1 @ l2). \<not> is_check ev" using l1 l2 by auto
  ultimately show ?thesis by blast
qed

lemma getMetrics_trace:
  "\<exists>rest. snd (getMetrics env sched options) = check_event env options # rest \<and>
     (\<forall>ev\<in>set rest. \<not> is_check ev)"
proof (cases "existence_check env options")
  case (Inl e)
  then show ?thesis by (simp add: getMetrics_check_failed)
next
  case (Inr b)
  show ?thesis
  proof (cases b)
    case True
    with Inr show ?thesis using final_state_trace by (simp add: getMetrics_valid)
  next
    case False
    with Inr show ?thesis by (simp add: getMetrics_invalid)
  qed
qed

text \<open>While the tasks are created, only tasks that miss the catalog are rejected.\<close>

lemma spawn_rejected_sync:
  assumes "length (tasks st) = length ms"
    and "\<forall>j e. EvRejected j e \<in> set (trace st) \<longrightarrow>
           j < length ms \<and> makeTSVBRequest_start env (ms ! j) options = Inl e"
  shows "\<forall>j e. EvRejected j e \<in> set (trace (spawn env options st m)) \<longrightarrow>
           j < length (ms @ [m]) \<and> makeTSVBRequest_start env ((ms @ [m]) ! j) options = Inl e"
proof (cases "makeTSVBRequest_start env m options")
  case (Inl e)
  then have "trace (spawn env options st m) = trace st @ [EvRejected (length ms) e]"
    using assms(1) by (simp add: spawn_def settle_def Let_def)
  with assms(2) Inl show ?thesis
    by (fastforce simp: nth_append less_Suc_eq)
next
  case (Inr p)
  obtain model0 probe where "p = (model0, probe)" by (cases p)
  with Inr have "trace (spawn env options st m) =
      trace st @ [EvIntervalProbe (length ms) probe (requires model0)]"
    using assms(1) by (simp add: spawn_def Let_def)
  with assms(2) show ?thesis
    by (fastforce simp: nth_append less_Suc_eq)
qed

lemma spawn_length: "length (tasks (spawn env options st m)) = Suc (length (tasks st))"
  by (cases "makeTSVBRequest_start env m options")
     (auto simp: spawn_def settle_def Let_def)

lemma spawn_all_rejected_sync:
  assumes "length (tasks st) = length ms"
    and "\<forall>j e. EvRejected j e \<in> set (trace st) \<longrightarrow>
           j < length ms \<and> makeTSVBRequest_start env (ms ! j) options = Inl e"
  shows "\<forall>j e. EvRejected j e \<in> set (trace (foldl (spawn env options) st ms')) \<longrightarrow>
           j < length (ms @ ms') \<and> makeTSVBRequest_start env ((ms @ ms') ! j) options = Inl e"
  using assms
proof (induction ms' arbitrary: st ms)
  case Nil
  then show ?case by simp
next
  case (Cons m ms')
  have "length (tasks (spawn env options st m)) = length (ms @ [m])"
    using Cons.prems(1) by (simp add: spawn_length)
  from Cons.IH [OF this spawn_rejected_sync [OF Cons.prems]] show ?case by simp
qed

text \<open>
  The state when every task has been created: the interval calculation of every task that
  passed the catalog is in the log, and no such task is rejected yet.
\<close>

lemma requests_probe_logged:
  assumes "i < length (metrics options)"
    and "makeTSVBRequest_start env (metrics options ! i) options = Inr (model0, probe)"
  shows "EvIntervalProbe i probe (requires model0) \<in>
           set (trace (foldl (spawn env options)
                  \<lparr>tasks = [], trace = [check_event env options], rejection = None\<rparr>
                  (metrics options))) \<and>
         (\<forall>e. EvRejected i e \<notin>
           set (trace (foldl (spawn env options)
                  \<lparr>tasks = [], trace = [check_event env options], rejection = None\<rparr>
                  (metrics options))))"
proof -
  let ?st0 = "\<lparr>tasks = [], trace = [check_event env options], rejection = None\<rparr> :: 'a run_state"
  have "run_inv env options nf [] ?st0" for nf
    unfolding check_event_def by (rule inv_init)
  from inv_spawn_all [OF this, of _ "metrics options"]
  have inv: "run_inv env options nf (metrics options) (foldl (spawn env options) ?st0 (metrics options))"
    for nf by simp
  have "\<forall>j e. EvRejected j e \<in> set (trace (foldl (spawn env options) ?st0 (metrics options))) \<longrightarrow>
           j < length ([] @ metrics options) \<and>
           makeTSVBRequest_start env (([] @ metrics options) ! j) options = Inl e"
    by (rule spawn_all_rejected_sync) (simp_all add: check_event_def)
  with assms(2) have "\<forall>e. EvRejected i e \<notin> set (trace (foldl (spawn env options) ?st0 (metrics options)))"
    by auto
  with run_inv_probe [OF inv assms] show ?thesis by blast
qed

subsection \<open>Normalization of one result\<close>

lemma normalize_metric_entry:
  assumes "distinct (map fst result)" "(k, panel) \<in> set result" "InventoryMetricRT_is env k"
  shows "normalize_metric env result k = Inr (normalize_panel k panel)"
  using assms by (simp add: normalize_metric_def)

lemma normalize_metric_id:
  "normalize_metric env result k = Inr entry \<Longrightarrow> metric_id entry = k"
  by (auto simp: normalize_metric_def normalize_panel_def split: if_splits option.splits)

subsection \<open>The scenario, evaluated\<close>

lemma scenario_options_simps:
  "nodeType (scenario_options ms) = ''host''"
  "nodeId (nodeIds (scenario_options ms)) = ''node-1''"
  "cloudId (nodeIds (scenario_options ms)) = None"
  "metrics (scenario_options ms) = ms"
  "timerange (scenario_options ms) = \<lparr>tr_from = 0, tr_to = 10000, tr_interval = ''10s''\<rparr>"
  "metricAlias (sourceConfiguration (scenario_options ms)) = ''metricbeat-*''"
  "logAlias (sourceConfiguration (scenario_options ms)) = ''filebeat-*''"
  "fields_timestamp (sc_fields (sourceConfiguration (scenario_options ms))) = ''@timestamp''"
  by (simp_all add: scenario_options_def)

lemma scenario_env_simps:
  "findInventoryFields scenario_env t f = (if t = ''host'' then ''host.name'' else ''container.id'')"
  "checkValidNode scenario_env ip field n = Inr (n = ''node-1'')"
  "metrics_tsvb scenario_env m =
     (if m \<in> set [''cpu'', ''memory'', ''load'', ''awsEC2CpuUtilization'']
      then Some (scenario_model m) else None)"
  "calculateMetricInterval scenario_env probe req = (if req = [] then Inr None else Inr (Some 30))"
  "framework_makeTSVBRequest scenario_env model tr filters =
     (if fst (template model) = ''cpu'' then Inr [(''cpu'', cpu_panel)]
      else if fst (template model) = ''memory'' then Inr [(''memory'', memory_panel)]
      else if fst (template model) = ''load'' then Inl (Error ''search backend unavailable'')
      else Inr [])"
  "InventoryMetricRT_is scenario_env k =
     (k \<in> set [''cpu'', ''memory'', ''load'', ''awsEC2CpuUtilization''])"
  "number_to_string scenario_env v = (if v = 30 then ''30'' else ''0'')"
  by (simp_all add: scenario_env_def)

lemmas scenario_simps =
  scenario_options_simps scenario_env_simps scenario_model_def existence_check_def
  nodeField_of_def

lemmas eval_defs =
  final_state_def check_event_def spawn_def deliver_def settle_def join_then_def Let_def
  makeTSVBRequest_def makeTSVBRequest_start_def makeTSVBRequest_resume_def
  truthy_string_def missingTSVBModelError_def cloudIdMissingError_def
  nodeDoesNotExistError_def

lemmas normalize_defs =
  normalize_all_def normalize_result_def normalize_metric_def normalize_panel_def
  normalize_series_def normalize_point_def metricIds_of_def reserved_keys_def invalidInfraMetricError_def
  cpu_panel_def memory_panel_def

lemma scenario_valid: "existence_check scenario_env (scenario_options ms) = Inr True"
  by (simp add: scenario_simps)

section \<open>The specification, claim by claim\<close>

subsection \<open>C1: the result is the flattened union of the normalized results\<close>

text \<open>
  C1, amended. The node exists, every task succeeds (task \<open>i\<close> with the raw result
  \<open>raws ! i\<close>), every raw result normalizes (to \<open>parts ! i\<close>), and both answers every task
  waits for have arrived. Then \<open>getMetrics\<close> returns the flattened normalized results: the
  elements of the output are those of the parts, none left out and none added.
\<close>

theorem C1_flattened_union:
  assumes "existence_check env options = Inr True"
    and "map (\<lambda>m. makeTSVBRequest env m options (nodeField_of env options)) (metrics options)
           = map Inr raws"
    and "map (normalize_result env) raws = map Inr parts"
    and "\<forall>i<length (metrics options). 2 \<le> count_list sched i"
  shows "fst (getMetrics env sched options) = Some (Inr (concat parts)) \<and>
         (\<forall>x. x \<in> set (concat parts) \<longleftrightarrow>
              (\<exists>i<length (metrics options). x \<in> set (parts ! i)))"
proof -
  have "progress (tasks (final_state env sched options) ! i) = 2"
    if "i < length (metrics options)" for i
    using final_state_settled [OF that, of sched env] assms(4) that by simp
  from join_then_all_settled [OF final_state_inv assms(2) this]
  have "join_then env (final_state env sched options) = Some (normalize_all env raws)" .
  moreover have "normalize_all env raws = Inr (concat parts)"
    using assms(3) by (auto simp: normalize_all_Inr)
  ultimately have "fst (getMetrics env sched options) = Some (Inr (concat parts))"
    by (simp add: getMetrics_valid [OF assms(1)])
  moreover have "length parts = length (metrics options)"
    using assms(2,3) by (metis length_map)
  then have "set parts = {parts ! i |i. i < length (metrics options)}"
    by (simp add: set_conv_nth)
  then have "x \<in> set (concat parts) \<longleftrightarrow> (\<exists>i<length (metrics options). x \<in> set (parts ! i))"
    for x by auto
  ultimately show ?thesis by blast
qed

theorem C1_flattened_union_witness:
  "fst (getMetrics scenario_env [1, 0, 0, 1] (scenario_options [''cpu'', ''memory''])) =
     Some (Inr [\<lparr>metric_id = ''cpu'', metric_series =
                   [\<lparr>series_id = ''cpu'', series_label = ''CPU'',
                     series_data = [\<lparr>timestamp = 1000, value = 0.5\<rparr>,
                                    \<lparr>timestamp = 2000, value = 0.6\<rparr>]\<rparr>]\<rparr>,
                \<lparr>metric_id = ''memory'', metric_series =
                   [\<lparr>series_id = ''memory'', series_label = ''Memory'',
                     series_data = [\<lparr>timestamp = 1000, value = 40\<rparr>]\<rparr>]\<rparr>])"
proof -
  let ?options = "scenario_options [''cpu'', ''memory'']"
  let ?cpu = "[\<lparr>metric_id = ''cpu'', metric_series =
                   [\<lparr>series_id = ''cpu'', series_label = ''CPU'',
                     series_data = [\<lparr>timestamp = 1000, value = 0.5\<rparr>,
                                    \<lparr>timestamp = 2000, value = 0.6\<rparr>]\<rparr>]\<rparr>]"
  let ?memory = "[\<lparr>metric_id = ''memory'', metric_series =
                   [\<lparr>series_id = ''memory'', series_label = ''Memory'',
                     series_data = [\<lparr>timestamp = 1000, value = 40\<rparr>]\<rparr>]\<rparr>]"
  have tasks: "map (\<lambda>m. makeTSVBRequest scenario_env m ?options (nodeField_of scenario_env ?options))
                 (metrics ?options) = map Inr [[(''cpu'', cpu_panel)], [(''memory'', memory_panel)]]"
    by (simp add: scenario_simps eval_defs)
  have norm: "map (normalize_result scenario_env) [[(''cpu'', cpu_panel)], [(''memory'', memory_panel)]]
                = map Inr [?cpu, ?memory]"
    by (simp add: scenario_simps normalize_defs)
  have arrived: "\<forall>i<length (metrics ?options). 2 \<le> count_list [1, 0, 0, 1] i"
    by (simp add: scenario_options_simps numeral_2_eq_2 less_Suc_eq)
  from C1_flattened_union [OF scenario_valid tasks norm arrived]
  have "fst (getMetrics scenario_env [1, 0, 0, 1] ?options) = Some (Inr (concat [?cpu, ?memory]))"
    by blast
  then show ?thesis by simp
qed

text \<open>
  The claim as it stands fails where a raw result carries a key that the runtime type
  registry does not know: the node exists, the metric is in the catalog and its query
  succeeds, and \<open>getMetrics\<close> is rejected.
\<close>

theorem C1_counterexample:
  "existence_check
     (scenario_env\<lparr>framework_makeTSVBRequest := \<lambda>model tr filters. Inr [(''bogus'', cpu_panel)]\<rparr>)
     (scenario_options [''cpu'']) = Inr True \<and>
   metrics_tsvb
     (scenario_env\<lparr>framework_makeTSVBRequest := \<lambda>model tr filters. Inr [(''bogus'', cpu_panel)]\<rparr>)
     ''cpu'' \<noteq> None \<and>
   makeTSVBRequest
     (scenario_env\<lparr>framework_makeTSVBRequest := \<lambda>model tr filters. Inr [(''bogus'', cpu_panel)]\<rparr>)
     ''cpu'' (scenario_options [''cpu'']) ''host.name'' = Inr [(''bogus'', cpu_panel)] \<and>
   fst (getMetrics
     (scenario_env\<lparr>framework_makeTSVBRequest := \<lambda>model tr filters. Inr [(''bogus'', cpu_panel)]\<rparr>)
     [0, 0] (scenario_options [''cpu''])) = Some (Inl (Error ''bogus is not a valid InfraMetric''))"
proof -
  let ?env = "scenario_env\<lparr>framework_makeTSVBRequest :=
                \<lambda>model tr filters. Inr [(''bogus'', cpu_panel)]\<rparr>"
  have valid: "existence_check ?env (scenario_options [''cpu'']) = Inr True"
    by (simp add: scenario_simps)
  show ?thesis
    unfolding getMetrics_valid [OF valid]
    by (simp add: scenario_simps eval_defs normalize_defs)
qed

subsection \<open>C2: an absent node\<close>

text \<open>
  C2. When the existence check reports the node absent, \<open>getMetrics\<close> is rejected with the
  error "<nodeId> does not exist." and the log holds the existence check and nothing else:
  no interval calculation and no metric query is dispatched, whatever the schedule. In
  every run, with the node present or not, the log starts with the existence check and
  holds no second one, so every metric query stands after it.
\<close>

theorem C2_node_absent:
  "(existence_check env options = Inr False \<longrightarrow>
      getMetrics env sched options =
        (Some (Inl (Error (nodeId (nodeIds options) @ '' does not exist.''))),
         [EvCheckValidNode
            (metricAlias (sourceConfiguration options) @ '','' @
             logAlias (sourceConfiguration options))
            (nodeField_of env options) (nodeId (nodeIds options))])) \<and>
   (\<exists>rest. snd (getMetrics env sched options) =
        EvCheckValidNode
          (metricAlias (sourceConfiguration options) @ '','' @
           logAlias (sourceConfiguration options))
          (nodeField_of env options) (nodeId (nodeIds options)) # rest \<and>
      (\<forall>ev\<in>set rest. \<not> is_check ev))"
  using getMetrics_trace [of env sched options]
  by (simp add: getMetrics_invalid check_event_def nodeDoesNotExistError_def)

theorem C2_node_absent_witness:
  "existence_check scenario_env
     ((scenario_options [''cpu'', ''memory'']) \<lparr>nodeIds := \<lparr>nodeId = ''node-9'', cloudId = None\<rparr>\<rparr>)
     = Inr False \<and>
   getMetrics scenario_env [1, 0, 1, 0]
     ((scenario_options [''cpu'', ''memory'']) \<lparr>nodeIds := \<lparr>nodeId = ''node-9'', cloudId = None\<rparr>\<rparr>)
     = (Some (Inl (Error ''node-9 does not exist.'')),
        [EvCheckValidNode ''metricbeat-*,filebeat-*'' ''host.name'' ''node-9''])"
proof -
  let ?options = "(scenario_options [''cpu'', ''memory''])
                    \<lparr>nodeIds := \<lparr>nodeId = ''node-9'', cloudId = None\<rparr>\<rparr>"
  have absent: "existence_check scenario_env ?options = Inr False"
    by (simp add: scenario_env_simps scenario_options_def existence_check_def nodeField_of_def)
  from C2_node_absent [of scenario_env ?options "[1, 0, 1, 0]"] absent
  have "getMetrics scenario_env [1, 0, 1, 0] ?options =
        (Some (Inl (Error (nodeId (nodeIds ?options) @ '' does not exist.''))),
         [EvCheckValidNode
            (metricAlias (sourceConfiguration ?options) @ '','' @
             logAlias (sourceConfiguration ?options))
            (nodeField_of scenario_env ?options) (nodeId (nodeIds ?options))])"
    by blast
  then show ?thesis
    using absent by (simp add: scenario_env_simps scenario_options_def nodeField_of_def)
qed

subsection \<open>C3: a cloud-scoped model without a cloud id\<close>

text \<open>
  C3, amended. The node exists, metric \<open>i\<close> of the request is in the catalog with a
  cloud-scoped model, the request has no cloud id (none, or the empty string), and the
  interval calculation for that metric answers. Then, under every schedule:
  the interval calculation for the metric is in the log; no metric query for it ever is;
  \<open>getMetrics\<close> never returns a list; once the calculation has answered, the task of the
  metric is rejected with "Model for <metricId> requires a cloudId, but none was given for
  <nodeId>.", and that rejection stands in the log after the call of the interval
  calculation; and \<open>getMetrics\<close> is rejected with this error when every other task
  succeeds.
\<close>

theorem C3_cloud_id_missing:
  assumes "existence_check env options = Inr True"
    and "i < length (metrics options)"
    and "makeTSVBRequest_start env (metrics options ! i) options = Inr (model0, probe)"
    and "id_type model0 = Some ''cloud''"
    and "\<not> truthy_string (cloudId (nodeIds options))"
    and "calculateMetricInterval env probe (requires model0) = Inr ci"
  shows "EvIntervalProbe i probe (requires model0) \<in> set (snd (getMetrics env sched options)) \<and>
         (\<forall>model tr filters.
            EvTSVBQuery i model tr filters \<notin> set (snd (getMetrics env sched options))) \<and>
         (\<forall>out. fst (getMetrics env sched options) \<noteq> Some (Inr out)) \<and>
         (i \<in> set sched \<longrightarrow>
            (\<exists>first later. snd (getMetrics env sched options) = first @ later \<and>
               EvIntervalProbe i probe (requires model0) \<in> set first \<and>
               EvRejected i
                 (Error (''Model for '' @ metrics options ! i @
                         '' requires a cloudId, but none was given for '' @
                         nodeId (nodeIds options) @ ''.'')) \<in> set later)) \<and>
         (i \<in> set sched \<and>
          (\<forall>j<length (metrics options). j \<noteq> i \<longrightarrow>
             (\<exists>r. makeTSVBRequest env (metrics options ! j) options (nodeField_of env options)
                     = Inr r)) \<longrightarrow>
          fst (getMetrics env sched options) =
            Some (Inl (Error (''Model for '' @ metrics options ! i @
                              '' requires a cloudId, but none was given for '' @
                              nodeId (nodeIds options) @ ''.''))))"
proof -
  let ?nf = "nodeField_of env options"
  let ?err = "cloudIdMissingError (metrics options ! i) (nodeId (nodeIds options))"
  let ?final = "final_state env sched options"
  let ?requests = "foldl (spawn env options)
                     \<lparr>tasks = [], trace = [check_event env options], rejection = None\<rparr>
                     (metrics options)"
  note inv = final_state_inv [of env options sched]
  have resume: "makeTSVBRequest_resume env (metrics options ! i) options ?nf model0 c = Inl ?err"
    for c using assms(4,5) by (rule resume_cloud_missing)
  have outcome: "makeTSVBRequest env (metrics options ! i) options ?nf = Inl ?err"
    using assms(3,6) resume by (simp add: makeTSVBRequest_def)
  have tr: "snd (getMetrics env sched options) = trace ?final"
    and res: "fst (getMetrics env sched options) = join_then env ?final"
    by (simp_all add: getMetrics_valid [OF assms(1)])
  have probe: "EvIntervalProbe i probe (requires model0) \<in> set (trace ?final)"
    using run_inv_probe [OF inv assms(2,3)] .
  have no_query: "EvTSVBQuery i model tr filters \<notin> set (trace ?final)" for model tr filters
  proof
    assume "EvTSVBQuery i model tr filters \<in> set (trace ?final)"
    from run_inv_event [OF inv this] assms(3) resume show False
      by (auto simp: event_ok_def)
  qed
  have no_result: "fst (getMetrics env sched options) \<noteq> Some (Inr out)" for out
    using failing_task_no_result [OF assms(1,2) outcome] .
  have rejected: "EvRejected i ?err \<in> set (trace ?final)" if "i \<in> set sched"
  proof -
    have len: "i < length (tasks ?requests)"
      using final_state_length [of env "[]" options] assms(2) by (simp add: final_state_def)
    from run_progress [OF len, of sched env options ?nf] count_list_pos [OF that]
    have "1 \<le> progress (tasks ?final ! i)" by (simp add: final_state_def)
    moreover have "tasks ?final ! i \<noteq> AwaitTSVB model tr filters" for model tr filters
      using run_inv_task [OF inv assms(2)] assms(3) resume by (auto simp: task_ok_def)
    ultimately obtain r where r: "tasks ?final ! i = Settled r"
      by (cases "tasks ?final ! i") auto
    with run_inv_task [OF inv assms(2)] outcome have "tasks ?final ! i = Settled (Inl ?err)"
      by (simp add: task_ok_def)
    from run_inv_settled [OF inv assms(2) this] show ?thesis .
  qed
  have order: "\<exists>first later. trace ?final = first @ later \<and>
                 EvIntervalProbe i probe (requires model0) \<in> set first \<and>
                 EvRejected i ?err \<in> set later" if "i \<in> set sched"
  proof -
    from run_trace [of env options ?nf ?requests sched] obtain later where
      later: "trace ?final = trace ?requests @ later" by (auto simp: final_state_def)
    from requests_probe_logged [OF assms(2,3)]
    have "EvIntervalProbe i probe (requires model0) \<in> set (trace ?requests)"
      and "EvRejected i ?err \<notin> set (trace ?requests)" by blast+
    moreover from rejected [OF that] later have
      "EvRejected i ?err \<in> set (trace ?requests) \<or> EvRejected i ?err \<in> set later" by simp
    ultimately show ?thesis using later by blast
  qed
  have alone: "fst (getMetrics env sched options) = Some (Inl ?err)"
    if "i \<in> set sched"
      and others: "\<forall>j<length (metrics options). j \<noteq> i \<longrightarrow>
             (\<exists>r. makeTSVBRequest env (metrics options ! j) options ?nf = Inr r)"
  proof -
    from rejected [OF that(1)] have "List.map_filter rejected_error (trace ?final) \<noteq> []"
      by (auto simp: first_rejection_None_iff)
    then obtain e' where e': "rejection ?final = Some e'"
      by (cases "List.map_filter rejected_error (trace ?final)")
         (simp_all add: run_inv_rejection [OF inv])
    from rejection_first [OF inv this] obtain j where
      j: "j < length (metrics options)"
         "makeTSVBRequest env (metrics options ! j) options ?nf = Inl e'"
      by blast
    with others have "j = i" by (cases "j = i") auto
    with j outcome have "e' = ?err" by simp
    with e' show ?thesis by (simp add: res join_then_def)
  qed
  from probe no_query no_result order alone show ?thesis
    unfolding tr cloudIdMissingError_def by blast
qed

theorem C3_cloud_id_missing_witness:
  "existence_check scenario_env (scenario_options [''awsEC2CpuUtilization'', ''cpu'']) = Inr True \<and>
   makeTSVBRequest_start scenario_env ''awsEC2CpuUtilization''
       (scenario_options [''awsEC2CpuUtilization'', ''cpu''])
     = Inr (scenario_model ''awsEC2CpuUtilization'' ''@timestamp'' ''metricbeat-*,filebeat-*'' ''10s'',
            \<lparr>io_indexPattern = ''filebeat-*,metricbeat-*'', io_timestampField = ''@timestamp'',
             io_timerange = \<lparr>tr_from = 0, tr_to = 10000, tr_interval = ''10s''\<rparr>\<rparr>) \<and>
   id_type (scenario_model ''awsEC2CpuUtilization'' ''@timestamp'' ''metricbeat-*,filebeat-*'' ''10s'')
     = Some ''cloud'' \<and>
   cloudId (nodeIds (scenario_options [''awsEC2CpuUtilization'', ''cpu''])) = None \<and>
   EvIntervalProbe 0
       \<lparr>io_indexPattern = ''filebeat-*,metricbeat-*'', io_timestampField = ''@timestamp'',
        io_timerange = \<lparr>tr_from = 0, tr_to = 10000, tr_interval = ''10s''\<rparr>\<rparr>
       [''system.awsEC2CpuUtilization'']
     \<in> set (snd (getMetrics scenario_env [1, 1, 0]
                   (scenario_options [''awsEC2CpuUtilization'', ''cpu'']))) \<and>
   (\<forall>model tr filters.
      EvTSVBQuery 0 model tr filters
        \<notin> set (snd (getMetrics scenario_env [1, 1, 0]
                      (scenario_options [''awsEC2CpuUtilization'', ''cpu''])))) \<and>
   (\<exists>first later.
      snd (getMetrics scenario_env [1, 1, 0] (scenario_options [''awsEC2CpuUtilization'', ''cpu'']))
        = first @ later \<and>
      EvIntervalProbe 0
          \<lparr>io_indexPattern = ''filebeat-*,metricbeat-*'', io_timestampField = ''@timestamp'',
           io_timerange = \<lparr>tr_from = 0, tr_to = 10000, tr_interval = ''10s''\<rparr>\<rparr>
          [''system.awsEC2CpuUtilization''] \<in> set first \<and>
      EvRejected 0
          (Error ''Model for awsEC2CpuUtilization requires a cloudId, but none was given for node-1.'')
        \<in> set later) \<and>
   fst (getMetrics scenario_env [1, 1, 0] (scenario_options [''awsEC2CpuUtilization'', ''cpu'']))
     = Some (Inl (Error
         ''Model for awsEC2CpuUtilization requires a cloudId, but none was given for node-1.''))"
proof -
  let ?options = "scenario_options [''awsEC2CpuUtilization'', ''cpu'']"
  let ?model0 = "scenario_model ''awsEC2CpuUtilization'' ''@timestamp''
                   ''metricbeat-*,filebeat-*'' ''10s''"
  let ?probe = "\<lparr>io_indexPattern = ''filebeat-*,metricbeat-*'', io_timestampField = ''@timestamp'',
                 io_timerange = \<lparr>tr_from = 0, tr_to = 10000, tr_interval = ''10s''\<rparr>\<rparr>"
  have i: "0 < length (metrics ?options)" by (simp add: scenario_options_simps)
  have start: "makeTSVBRequest_start scenario_env (metrics ?options ! 0) ?options
                 = Inr (?model0, ?probe)"
    by (simp add: scenario_options_simps scenario_env_simps makeTSVBRequest_start_def)
  have cloud: "id_type ?model0 = Some ''cloud''" by (simp add: scenario_model_def)
  have no_id: "\<not> truthy_string (cloudId (nodeIds ?options))"
    by (simp add: scenario_options_simps truthy_string_def)
  have calc: "calculateMetricInterval scenario_env ?probe (requires ?model0) = Inr (Some 30)"
    by (simp add: scenario_env_simps scenario_model_def)
  have others: "\<forall>j<length (metrics ?options). j \<noteq> 0 \<longrightarrow>
      (\<exists>r. makeTSVBRequest scenario_env (metrics ?options ! j) ?options
              (nodeField_of scenario_env ?options) = Inr r)"
    by (simp add: scenario_simps eval_defs less_Suc_eq)
  note C3 = C3_cloud_id_missing [OF scenario_valid i start cloud no_id calc, of "[1, 1, 0]"]
  from C3 others have
    "EvIntervalProbe 0 ?probe (requires ?model0)
       \<in> set (snd (getMetrics scenario_env [1, 1, 0] ?options))"
    "\<forall>model tr filters.
       EvTSVBQuery 0 model tr filters \<notin> set (snd (getMetrics scenario_env [1, 1, 0] ?options))"
    "\<exists>first later. snd (getMetrics scenario_env [1, 1, 0] ?options) = first @ later \<and>
       EvIntervalProbe 0 ?probe (requires ?model0) \<in> set first \<and>
       EvRejected 0 (Error (''Model for '' @ metrics ?options ! 0 @
                         '' requires a cloudId, but none was given for '' @
                         nodeId (nodeIds ?options) @ ''.'')) \<in> set later"
    "fst (getMetrics scenario_env [1, 1, 0] ?options) =
       Some (Inl (Error (''Model for '' @ metrics ?options ! 0 @
                         '' requires a cloudId, but none was given for '' @
                         nodeId (nodeIds ?options) @ ''.'')))"
    by simp_all
  moreover have "makeTSVBRequest_start scenario_env ''awsEC2CpuUtilization'' ?options
                   = Inr (?model0, ?probe)"
    using start by (simp add: scenario_options_simps)
  ultimately show ?thesis
    using scenario_valid by (simp add: scenario_options_simps scenario_model_def)
qed

text \<open>
  The claim as it stands fails on the order of the check: the interval calculation of a
  cloud-scoped metric is called when its task is created, and the missing cloud id is
  found only when the calculation has answered. It fails on the error as well when the
  node is absent, or when another task fails first.
\<close>

theorem C3_counterexample:
  "getMetrics scenario_env [] (scenario_options [''awsEC2CpuUtilization''])
     = (None,
        [EvCheckValidNode ''metricbeat-*,filebeat-*'' ''host.name'' ''node-1'',
         EvIntervalProbe 0
           \<lparr>io_indexPattern = ''filebeat-*,metricbeat-*'', io_timestampField = ''@timestamp'',
            io_timerange = \<lparr>tr_from = 0, tr_to = 10000, tr_interval = ''10s''\<rparr>\<rparr>
           [''system.awsEC2CpuUtilization'']]) \<and>
   getMetrics scenario_env [0] (scenario_options [''awsEC2CpuUtilization''])
     = (Some (Inl (Error
          ''Model for awsEC2CpuUtilization requires a cloudId, but none was given for node-1.'')),
        [EvCheckValidNode ''metricbeat-*,filebeat-*'' ''host.name'' ''node-1'',
         EvIntervalProbe 0
           \<lparr>io_indexPattern = ''filebeat-*,metricbeat-*'', io_timestampField = ''@timestamp'',
            io_timerange = \<lparr>tr_from = 0, tr_to = 10000, tr_interval = ''10s''\<rparr>\<rparr>
           [''system.awsEC2CpuUtilization''],
         EvRejected 0 (Error
          ''Model for awsEC2CpuUtilization requires a cloudId, but none was given for node-1.'')]) \<and>
   fst (getMetrics scenario_env [0]
          ((scenario_options [''awsEC2CpuUtilization''])
             \<lparr>nodeIds := \<lparr>nodeId = ''node-9'', cloudId = None\<rparr>\<rparr>))
     = Some (Inl (Error ''node-9 does not exist.'')) \<and>
   fst (getMetrics scenario_env [1, 1, 0] (scenario_options [''awsEC2CpuUtilization'', ''load'']))
     = Some (Inl (Error ''search backend unavailable''))"
proof -
  have absent: "existence_check scenario_env
      ((scenario_options [''awsEC2CpuUtilization''])
         \<lparr>nodeIds := \<lparr>nodeId = ''node-9'', cloudId = None\<rparr>\<rparr>) = Inr False"
    by (simp add: scenario_env_simps scenario_options_def existence_check_def nodeField_of_def)
  show ?thesis
    unfolding getMetrics_valid [OF scenario_valid] getMetrics_invalid [OF absent]
    by (simp add: scenario_simps eval_defs scenario_options_def)
qed

subsection \<open>C4: all or nothing\<close>

text \<open>
  C4. The node exists and the task of metric \<open>i\<close> fails. Then \<open>getMetrics\<close> never returns a
  list, at no point of any schedule. Whenever it is rejected, it is rejected with the error
  of the first rejection in the log, and that error is the outcome of the task the log
  names. It is rejected as soon as both answers task \<open>i\<close> may wait for have arrived.
\<close>

theorem C4_all_or_nothing:
  assumes "existence_check env options = Inr True"
    and "i < length (metrics options)"
    and "makeTSVBRequest env (metrics options ! i) options (nodeField_of env options) = Inl e"
  shows "(\<forall>out. fst (getMetrics env sched options) \<noteq> Some (Inr out)) \<and>
         (\<forall>e'. fst (getMetrics env sched options) = Some (Inl e') \<longrightarrow>
            (\<exists>j pre post. j < length (metrics options) \<and>
               makeTSVBRequest env (metrics options ! j) options (nodeField_of env options) = Inl e' \<and>
               snd (getMetrics env sched options) = pre @ EvRejected j e' # post \<and>
               (\<forall>k e''. EvRejected k e'' \<notin> set pre))) \<and>
         (2 \<le> count_list sched i \<longrightarrow> (\<exists>e'. fst (getMetrics env sched options) = Some (Inl e')))"
proof (intro conjI allI impI)
  fix out
  show "fst (getMetrics env sched options) \<noteq> Some (Inr out)"
    using assms by (rule failing_task_no_result)
next
  fix e' assume "fst (getMetrics env sched options) = Some (Inl e')"
  then have j: "join_then env (final_state env sched options) = Some (Inl e')"
    by (simp add: getMetrics_valid [OF assms(1)])
  have "rejection (final_state env sched options) = Some e'"
  proof (cases "rejection (final_state env sched options)")
    case None
    with j obtain raws where
      "those (map fulfilled (tasks (final_state env sched options))) = Some raws"
      by (auto simp: join_then_def split: option.splits)
    from all_fulfilled [OF final_state_inv this] assms(2)
    have "makeTSVBRequest env (metrics options ! i) options (nodeField_of env options)
            = Inr (raws ! i)"
      by (metis length_map nth_map)
    with assms(3) show ?thesis by simp
  next
    case (Some e0)
    with j show ?thesis by (simp add: join_then_def)
  qed
  from rejection_first [OF final_state_inv this]
  show "\<exists>j pre post. j < length (metrics options) \<and>
               makeTSVBRequest env (metrics options ! j) options (nodeField_of env options) = Inl e' \<and>
               snd (getMetrics env sched options) = pre @ EvRejected j e' # post \<and>
               (\<forall>k e''. EvRejected k e'' \<notin> set pre)"
    by (simp add: getMetrics_valid [OF assms(1)])
next
  assume "2 \<le> count_list sched i"
  from final_state_settled [OF assms(2) this, of env]
  have "progress (tasks (final_state env sched options) ! i) = 2" by simp
  from settled_failure_rejects [OF final_state_inv assms(2,3) this]
  show "\<exists>e'. fst (getMetrics env sched options) = Some (Inl e')"
    by (auto simp: getMetrics_valid [OF assms(1)] join_then_def)
qed

theorem C4_all_or_nothing_witness:
  "existence_check scenario_env (scenario_options [''cpu'', ''load'', ''memory'']) = Inr True \<and>
   makeTSVBRequest scenario_env ''load'' (scenario_options [''cpu'', ''load'', ''memory''])
     ''host.name'' = Inl (Error ''search backend unavailable'') \<and>
   (\<forall>out. fst (getMetrics scenario_env [1, 0, 1, 2, 0, 2]
                 (scenario_options [''cpu'', ''load'', ''memory''])) \<noteq> Some (Inr out)) \<and>
   fst (getMetrics scenario_env [1, 0, 1, 2, 0, 2]
          (scenario_options [''cpu'', ''load'', ''memory'']))
     = Some (Inl (Error ''search backend unavailable'')) \<and>
   (\<exists>j pre post. j < 3 \<and>
      makeTSVBRequest scenario_env ([''cpu'', ''load'', ''memory''] ! j)
        (scenario_options [''cpu'', ''load'', ''memory'']) ''host.name''
        = Inl (Error ''search backend unavailable'') \<and>
      snd (getMetrics scenario_env [1, 0, 1, 2, 0, 2]
             (scenario_options [''cpu'', ''load'', ''memory'']))
        = pre @ EvRejected j (Error ''search backend unavailable'') # post \<and>
      (\<forall>k e''. EvRejected k e'' \<notin> set pre))"
proof -
  let ?options = "scenario_options [''cpu'', ''load'', ''memory'']"
  have i: "1 < length (metrics ?options)" by (simp add: scenario_options_simps)
  have fails: "makeTSVBRequest scenario_env (metrics ?options ! 1) ?options
                 (nodeField_of scenario_env ?options) = Inl (Error ''search backend unavailable'')"
    by (simp add: scenario_simps eval_defs)
  have res: "fst (getMetrics scenario_env [1, 0, 1, 2, 0, 2] ?options)
               = Some (Inl (Error ''search backend unavailable''))"
    by (simp add: getMetrics_valid [OF scenario_valid] scenario_simps eval_defs)
  note C4 = C4_all_or_nothing [OF scenario_valid i fails, of "[1, 0, 1, 2, 0, 2]"]
  from C4 have none: "\<forall>out. fst (getMetrics scenario_env [1, 0, 1, 2, 0, 2] ?options) \<noteq> Some (Inr out)"
    by blast
  from C4 res have "\<exists>j pre post. j < length (metrics ?options) \<and>
      makeTSVBRequest scenario_env (metrics ?options ! j) ?options (nodeField_of scenario_env ?options)
        = Inl (Error ''search backend unavailable'') \<and>
      snd (getMetrics scenario_env [1, 0, 1, 2, 0, 2] ?options)
        = pre @ EvRejected j (Error ''search backend unavailable'') # post \<and>
      (\<forall>k e''. EvRejected k e'' \<notin> set pre)"
    by blast
  then have first: "\<exists>j pre post. j < 3 \<and>
      makeTSVBRequest scenario_env ([''cpu'', ''load'', ''memory''] ! j) ?options ''host.name''
        = Inl (Error ''search backend unavailable'') \<and>
      snd (getMetrics scenario_env [1, 0, 1, 2, 0, 2] ?options)
        = pre @ EvRejected j (Error ''search backend unavailable'') # post \<and>
      (\<forall>k e''. EvRejected k e'' \<notin> set pre)"
    by (simp add: scenario_options_simps scenario_env_simps nodeField_of_def numeral_3_eq_3)
  from fails have "makeTSVBRequest scenario_env ''load'' ?options ''host.name''
      = Inl (Error ''search backend unavailable'')"
    by (simp add: scenario_options_simps scenario_env_simps nodeField_of_def)
  with scenario_valid none res first show ?thesis by blast
qed

subsection \<open>C5: series and points\<close>

text \<open>
  C5. The object built from a panel whose one series has the data [[1000, 0.5], [2000, 0.6]]
  carries the data [{timestamp: 1000, value: 0.5}, {timestamp: 2000, value: 0.6}]. For every
  panel, the object built from it has the key as its id and one series per series of the
  panel, in the same order, with the same id and the same label; the points of a series are
  as many as the pairs of its data and stand in the same order, point \<open>j\<close> with the first
  component of pair \<open>j\<close> as timestamp and the second as value. For a raw result with distinct
  keys whose keys, the two reserved ones apart, are all known to the runtime type registry,
  normalization returns these objects, one per remaining key, in key order.
\<close>

theorem C5_series_points:
  "normalize_panel k
     \<lparr>panel_series = [\<lparr>tsvb_id = sid, tsvb_label = lab,
                        tsvb_data = [(1000, 0.5), (2000, 0.6)]\<rparr>]\<rparr> =
     \<lparr>metric_id = k,
      metric_series = [\<lparr>series_id = sid, series_label = lab,
                        series_data = [\<lparr>timestamp = 1000, value = 0.5\<rparr>,
                                       \<lparr>timestamp = 2000, value = 0.6\<rparr>]\<rparr>]\<rparr> \<and>
   metric_id (normalize_panel k panel) = k \<and>
   map series_id (metric_series (normalize_panel k panel)) = map tsvb_id (panel_series panel) \<and>
   map series_label (metric_series (normalize_panel k panel))
     = map tsvb_label (panel_series panel) \<and>
   map (\<lambda>series. map timestamp (series_data series)) (metric_series (normalize_panel k panel))
     = map (\<lambda>series. map fst (tsvb_data series)) (panel_series panel) \<and>
   map (\<lambda>series. map value (series_data series)) (metric_series (normalize_panel k panel))
     = map (\<lambda>series. map snd (tsvb_data series)) (panel_series panel) \<and>
   (distinct (map fst result) \<and>
    (\<forall>key\<in>set (map fst result).
       key \<noteq> ''type'' \<and> key \<noteq> ''uiRestrictions'' \<longrightarrow> InventoryMetricRT_is env key) \<longrightarrow>
    normalize_result env result =
      Inr (map (\<lambda>(key, panel). normalize_panel key panel)
             (filter (\<lambda>(key, panel). key \<noteq> ''type'' \<and> key \<noteq> ''uiRestrictions'') result)))"
proof (intro conjI impI)
  assume a: "distinct (map fst result) \<and>
    (\<forall>key\<in>set (map fst result).
       key \<noteq> ''type'' \<and> key \<noteq> ''uiRestrictions'' \<longrightarrow> InventoryMetricRT_is env key)"
  let ?keep = "\<lambda>(key, panel). key \<noteq> ''type'' \<and> key \<noteq> ''uiRestrictions''"
  let ?entry = "\<lambda>(key, panel). normalize_panel key panel"
  have ids: "metricIds_of result = map fst (filter ?keep result)"
    by (induction result) (auto simp: metricIds_of_def reserved_keys_def)
  have "normalize_metric env result (fst kp) = Inr (?entry kp)"
    if "kp \<in> set (filter ?keep result)" for kp
  proof -
    obtain key panel where kp: "kp = (key, panel)" by (cases kp)
    with that have mem: "(key, panel) \<in> set result"
      and keep: "key \<noteq> ''type'' \<and> key \<noteq> ''uiRestrictions''"
      by auto
    from mem have "key \<in> set (map fst result)" by force
    with a keep have "InventoryMetricRT_is env key" by blast
    from normalize_metric_entry [OF _ mem this] a kp show ?thesis by simp
  qed
  then have "map (normalize_metric env result) (map fst (filter ?keep result))
          = map Inr (map ?entry (filter ?keep result))"
    by simp
  then show "normalize_result env result = Inr (map ?entry (filter ?keep result))"
    unfolding normalize_result_def ids by (rule map_throw_Inr_conv)
qed (simp_all add: normalize_panel_def normalize_series_def normalize_point_def comp_def)

theorem C5_series_points_witness:
  "distinct (map fst [(''type'', memory_panel), (''cpu'', cpu_panel)]) \<and>
   InventoryMetricRT_is scenario_env ''cpu'' \<and>
   normalize_result scenario_env [(''type'', memory_panel), (''cpu'', cpu_panel)] =
     Inr [\<lparr>metric_id = ''cpu'', metric_series =
             [\<lparr>series_id = ''cpu'', series_label = ''CPU'',
               series_data = [\<lparr>timestamp = 1000, value = 0.5\<rparr>,
                              \<lparr>timestamp = 2000, value = 0.6\<rparr>]\<rparr>]\<rparr>]"
proof -
  let ?result = "[(''type'', memory_panel), (''cpu'', cpu_panel)]"
  have keys: "distinct (map fst ?result)" by simp
  have known: "\<forall>key\<in>set (map fst ?result).
      key \<noteq> ''type'' \<and> key \<noteq> ''uiRestrictions'' \<longrightarrow> InventoryMetricRT_is scenario_env key"
    by (simp add: scenario_env_simps)
  note C5 = C5_series_points [where k = "''cpu''" and sid = "''cpu''" and lab = "''CPU''" and
                 panel = cpu_panel and result = ?result and env = scenario_env]
  from C5 keys known
  have "normalize_result scenario_env ?result =
      Inr (map (\<lambda>(key, panel). normalize_panel key panel)
             (filter (\<lambda>(key, panel). key \<noteq> ''type'' \<and> key \<noteq> ''uiRestrictions'') ?result))"
    by blast
  moreover from C5 have "normalize_panel ''cpu''
      \<lparr>panel_series = [\<lparr>tsvb_id = ''cpu'', tsvb_label = ''CPU'',
                         tsvb_data = [(1000, 0.5), (2000, 0.6)]\<rparr>]\<rparr> =
      \<lparr>metric_id = ''cpu'', metric_series =
             [\<lparr>series_id = ''cpu'', series_label = ''CPU'',
               series_data = [\<lparr>timestamp = 1000, value = 0.5\<rparr>,
                              \<lparr>timestamp = 2000, value = 0.6\<rparr>]\<rparr>]\<rparr>"
    by blast
  then have "normalize_panel ''cpu'' cpu_panel =
      \<lparr>metric_id = ''cpu'', metric_series =
             [\<lparr>series_id = ''cpu'', series_label = ''CPU'',
               series_data = [\<lparr>timestamp = 1000, value = 0.5\<rparr>,
                              \<lparr>timestamp = 2000, value = 0.6\<rparr>]\<rparr>]\<rparr>"
    by (simp add: cpu_panel_def)
  ultimately show ?thesis by (simp add: scenario_env_simps)
qed

subsection \<open>C6: reserved and unknown keys\<close>

text \<open>
  C6, amended. When normalization of a raw result succeeds, the ids of its entries are the
  keys of the result other than "type" and "uiRestrictions", in key order: the reserved
  keys produce no entry and every other key produces one. When \<open>k\<close> is the first of the
  remaining keys that the runtime type registry does not know, normalization fails with
  the error "<k> is not a valid InfraMetric". When the registry knows all of them,
  normalization succeeds.
\<close>

theorem C6_reserved_and_unknown_keys:
  "(\<forall>out. normalize_result env result = Inr out \<longrightarrow>
      map metric_id out =
        filter (\<lambda>k. k \<noteq> ''type'' \<and> k \<noteq> ''uiRestrictions'') (map fst result)) \<and>
   (\<forall>pre k post.
      filter (\<lambda>k. k \<noteq> ''type'' \<and> k \<noteq> ''uiRestrictions'') (map fst result) = pre @ k # post \<and>
      (\<forall>x\<in>set pre. InventoryMetricRT_is env x) \<and> \<not> InventoryMetricRT_is env k \<longrightarrow>
      normalize_result env result = Inl (Error (k @ '' is not a valid InfraMetric''))) \<and>
   ((\<forall>k\<in>set (map fst result).
       k \<noteq> ''type'' \<and> k \<noteq> ''uiRestrictions'' \<longrightarrow> InventoryMetricRT_is env k) \<longrightarrow>
    (\<exists>out. normalize_result env result = Inr out))"
proof (intro conjI allI impI)
  have ids: "metricIds_of result =
      filter (\<lambda>k. k \<noteq> ''type'' \<and> k \<noteq> ''uiRestrictions'') (map fst result)"
    by (simp add: metricIds_of_def reserved_keys_def)
  have known: "\<exists>entry. normalize_metric env result x = Inr entry"
    if "x \<in> set (metricIds_of result)" "InventoryMetricRT_is env x" for x
  proof -
    from that(1) have "x \<in> set (map fst result)" by (simp add: metricIds_of_def)
    then have "map_of result x \<noteq> None" by (simp add: map_of_eq_None_iff)
    with that(2) show ?thesis by (auto simp: normalize_metric_def)
  qed
  {
    fix out assume "normalize_result env result = Inr out"
    then have "map (normalize_metric env result) (metricIds_of result) = map Inr out"
      unfolding normalize_result_def by (rule map_throw_Inr)
    then have "map metric_id out = metricIds_of result"
      by (rule map_Inr_ids) (rule normalize_metric_id)
    then show "map metric_id out =
        filter (\<lambda>k. k \<noteq> ''type'' \<and> k \<noteq> ''uiRestrictions'') (map fst result)"
      by (simp add: ids)
  next
    fix pre k post
    assume a: "filter (\<lambda>k. k \<noteq> ''type'' \<and> k \<noteq> ''uiRestrictions'') (map fst result) = pre @ k # post \<and>
      (\<forall>x\<in>set pre. InventoryMetricRT_is env x) \<and> \<not> InventoryMetricRT_is env k"
    then have split: "metricIds_of result = pre @ k # post" by (simp add: ids)
    have "\<forall>x\<in>set pre. \<exists>entry. normalize_metric env result x = Inr entry"
      using known a split by auto
    moreover have "normalize_metric env result k = Inl (invalidInfraMetricError k)"
      using a by (simp add: normalize_metric_def)
    ultimately have "map_throw (normalize_metric env result) (pre @ k # post)
        = Inl (invalidInfraMetricError k)"
      by (rule map_throw_Inl)
    then show "normalize_result env result = Inl (Error (k @ '' is not a valid InfraMetric''))"
      by (simp add: normalize_result_def split invalidInfraMetricError_def)
  next
    assume all: "\<forall>k\<in>set (map fst result).
       k \<noteq> ''type'' \<and> k \<noteq> ''uiRestrictions'' \<longrightarrow> InventoryMetricRT_is env k"
    have "\<forall>x\<in>set (metricIds_of result). \<exists>entry. normalize_metric env result x = Inr entry"
      using known all by (auto simp: ids)
    then obtain h where "\<forall>x\<in>set (metricIds_of result). normalize_metric env result x = Inr (h x)"
      by metis
    then have "map (normalize_metric env result) (metricIds_of result)
        = map Inr (map h (metricIds_of result))" by simp
    then have "normalize_result env result = Inr (map h (metricIds_of result))"
      unfolding normalize_result_def by (rule map_throw_Inr_conv)
    then show "\<exists>out. normalize_result env result = Inr out" by blast
  }
qed

theorem C6_reserved_and_unknown_keys_witness:
  "normalize_result scenario_env
     [(''type'', memory_panel), (''cpu'', cpu_panel), (''uiRestrictions'', memory_panel),
      (''memory'', memory_panel)]
     = Inr [normalize_panel ''cpu'' cpu_panel, normalize_panel ''memory'' memory_panel] \<and>
   map metric_id [normalize_panel ''cpu'' cpu_panel, normalize_panel ''memory'' memory_panel]
     = [''cpu'', ''memory''] \<and>
   InventoryMetricRT_is scenario_env ''cpu'' \<and>
   InventoryMetricRT_is scenario_env ''memory'' \<and>
   (\<exists>out. normalize_result scenario_env
     [(''type'', memory_panel), (''cpu'', cpu_panel), (''uiRestrictions'', memory_panel),
      (''memory'', memory_panel)] = Inr out) \<and>
   \<not> InventoryMetricRT_is scenario_env ''bogus'' \<and>
   normalize_result scenario_env
     [(''type'', memory_panel), (''cpu'', cpu_panel), (''bogus'', cpu_panel),
      (''other'', memory_panel)]
     = Inl (Error ''bogus is not a valid InfraMetric'')"
proof -
  let ?good = "[(''type'', memory_panel), (''cpu'', cpu_panel), (''uiRestrictions'', memory_panel),
                (''memory'', memory_panel)]"
  let ?bad = "[(''type'', memory_panel), (''cpu'', cpu_panel), (''bogus'', cpu_panel),
               (''other'', memory_panel)]"
  have good: "normalize_result scenario_env ?good
     = Inr [normalize_panel ''cpu'' cpu_panel, normalize_panel ''memory'' memory_panel]"
    by (simp add: scenario_env_simps normalize_result_def normalize_metric_def metricIds_of_def
          reserved_keys_def)
  have split: "filter (\<lambda>k. k \<noteq> ''type'' \<and> k \<noteq> ''uiRestrictions'') (map fst ?bad)
                 = [''cpu''] @ ''bogus'' # [''other'']"
    by simp
  have pre: "\<forall>x\<in>set [''cpu'']. InventoryMetricRT_is scenario_env x"
    and k: "\<not> InventoryMetricRT_is scenario_env ''bogus''"
    and mem: "InventoryMetricRT_is scenario_env ''memory''"
    by (simp_all add: scenario_env_simps)
  have known: "\<forall>k\<in>set (map fst ?good).
       k \<noteq> ''type'' \<and> k \<noteq> ''uiRestrictions'' \<longrightarrow> InventoryMetricRT_is scenario_env k"
    by (simp add: scenario_env_simps)
  note C6 = C6_reserved_and_unknown_keys [of scenario_env]
  from C6 [of ?good] good have ids: "map metric_id
     [normalize_panel ''cpu'' cpu_panel, normalize_panel ''memory'' memory_panel]
     = filter (\<lambda>k. k \<noteq> ''type'' \<and> k \<noteq> ''uiRestrictions'') (map fst ?good)"
    by blast
  from C6 [of ?good] known have ex: "\<exists>out. normalize_result scenario_env ?good = Inr out"
    by blast
  from C6 [of ?bad] split pre k
  have bad: "normalize_result scenario_env ?bad = Inl (Error (''bogus'' @ '' is not a valid InfraMetric''))"
    by blast
  from good ids ex bad pre k mem show ?thesis by simp
qed

text \<open>
  The claim as it stands fails on the message, and on which of several unknown keys the
  error names.
\<close>

theorem C6_counterexample:
  "normalize_result scenario_env [(''bogus'', cpu_panel), (''other'', memory_panel)]
     = Inl (Error ''bogus is not a valid InfraMetric'') \<and>
   normalize_result scenario_env [(''bogus'', cpu_panel), (''other'', memory_panel)]
     \<noteq> Inl (Error ''bogus is not a valid metric'') \<and>
   \<not> InventoryMetricRT_is scenario_env ''other'' \<and>
   normalize_result scenario_env [(''bogus'', cpu_panel), (''other'', memory_panel)]
     \<noteq> Inl (Error ''other is not a valid InfraMetric'')"
  by (simp add: scenario_env_simps normalize_result_def normalize_metric_def metricIds_of_def
        reserved_keys_def invalidInfraMetricError_def)

subsection \<open>C7: a metric id outside the catalog\<close>

text \<open>
  C7, amended. The node exists and \<open>m\<close> is the first requested metric id that is not in the
  catalog. Then \<open>getMetrics\<close> is rejected, under every schedule, with the error
  "The TSVB model for <m> does not exist for <nodeType>". In every run, an interval
  calculation or a metric query in the log belongs to a metric id that is in the catalog:
  for an id outside the catalog neither is ever dispatched.
\<close>

theorem C7_unknown_metric:
  assumes "existence_check env options = Inr True"
    and "metrics options = pre @ m # post"
    and "\<forall>x\<in>set pre. metrics_tsvb env x \<noteq> None"
    and "metrics_tsvb env m = None"
  shows "fst (getMetrics env sched options) =
           Some (Inl (Error (''The TSVB model for '' @ m @ '' does not exist for '' @
                             nodeType options))) \<and>
         (\<forall>i probe req. EvIntervalProbe i probe req \<in> set (snd (getMetrics env sched options)) \<longrightarrow>
            i < length (metrics options) \<and> metrics_tsvb env (metrics options ! i) \<noteq> None) \<and>
         (\<forall>i model tr filters.
            EvTSVBQuery i model tr filters \<in> set (snd (getMetrics env sched options)) \<longrightarrow>
            i < length (metrics options) \<and> metrics_tsvb env (metrics options ! i) \<noteq> None)"
proof (intro conjI allI impI)
  have "rejection (final_state env sched options)
          = Some (missingTSVBModelError m (nodeType options))"
    unfolding final_state_def assms(2)
    by (rule first_unknown_metric) (use assms(3,4) in simp_all)
  then show "fst (getMetrics env sched options) =
           Some (Inl (Error (''The TSVB model for '' @ m @ '' does not exist for '' @
                             nodeType options)))"
    by (simp add: getMetrics_valid [OF assms(1)] join_then_def missingTSVBModelError_def)
next
  fix i probe req
  assume "EvIntervalProbe i probe req \<in> set (snd (getMetrics env sched options))"
  from getMetrics_events [OF this]
  show "i < length (metrics options)" "metrics_tsvb env (metrics options ! i) \<noteq> None"
    by (auto simp: event_ok_def start_Inr_iff)
next
  fix i model tr filters
  assume "EvTSVBQuery i model tr filters \<in> set (snd (getMetrics env sched options))"
  from getMetrics_events [OF this]
  show "i < length (metrics options)" "metrics_tsvb env (metrics options ! i) \<noteq> None"
    by (auto simp: event_ok_def start_Inr_iff)
qed

theorem C7_unknown_metric_witness:
  "existence_check scenario_env (scenario_options [''cpu'', ''disk'', ''network'']) = Inr True \<and>
   metrics_tsvb scenario_env ''disk'' = None \<and>
   fst (getMetrics scenario_env [0, 0, 1, 1] (scenario_options [''cpu'', ''disk'', ''network'']))
     = Some (Inl (Error ''The TSVB model for disk does not exist for host'')) \<and>
   snd (getMetrics scenario_env [0, 0, 1, 1] (scenario_options [''cpu'', ''disk'', ''network''])) =
     [EvCheckValidNode ''metricbeat-*,filebeat-*'' ''host.name'' ''node-1'',
      EvIntervalProbe 0
        \<lparr>io_indexPattern = ''filebeat-*,metricbeat-*'', io_timestampField = ''@timestamp'',
         io_timerange = \<lparr>tr_from = 0, tr_to = 10000, tr_interval = ''10s''\<rparr>\<rparr>
        [''system.cpu''],
      EvRejected 1 (Error ''The TSVB model for disk does not exist for host''),
      EvRejected 2 (Error ''The TSVB model for network does not exist for host''),
      EvTSVBQuery 0
        \<lparr>requires = [''system.cpu''], interval = ''>=30s'', id_type = None, map_field_to = None,
         template = (''cpu'', ''metricbeat-*,filebeat-*'', ''@timestamp'')\<rparr>
        \<lparr>tr_min = 0, tr_max = 10000\<rparr> [Match ''host.name'' ''node-1'']] \<and>
   metrics_tsvb scenario_env ''cpu'' \<noteq> None"
proof -
  let ?options = "scenario_options [''cpu'', ''disk'', ''network'']"
  let ?probe = "\<lparr>io_indexPattern = ''filebeat-*,metricbeat-*'', io_timestampField = ''@timestamp'',
                 io_timerange = \<lparr>tr_from = 0, tr_to = 10000, tr_interval = ''10s''\<rparr>\<rparr>"
  let ?cpu = "\<lparr>requires = [''system.cpu''], interval = ''>=30s'', id_type = None,
               map_field_to = None,
               template = (''cpu'', ''metricbeat-*,filebeat-*'', ''@timestamp'')\<rparr>"
  have ms: "metrics ?options = [''cpu''] @ ''disk'' # [''network'']"
    by (simp add: scenario_options_simps)
  have pre: "\<forall>x\<in>set [''cpu'']. metrics_tsvb scenario_env x \<noteq> None"
    by (simp add: scenario_env_simps)
  have m: "metrics_tsvb scenario_env ''disk'' = None" by (simp add: scenario_env_simps)
  have run: "snd (getMetrics scenario_env [0, 0, 1, 1] ?options) =
     [EvCheckValidNode ''metricbeat-*,filebeat-*'' ''host.name'' ''node-1'',
      EvIntervalProbe 0 ?probe [''system.cpu''],
      EvRejected 1 (Error ''The TSVB model for disk does not exist for host''),
      EvRejected 2 (Error ''The TSVB model for network does not exist for host''),
      EvTSVBQuery 0 ?cpu \<lparr>tr_min = 0, tr_max = 10000\<rparr> [Match ''host.name'' ''node-1'']]"
    unfolding getMetrics_valid [OF scenario_valid]
    by (simp add: scenario_simps eval_defs)
  then have query: "EvTSVBQuery 0 ?cpu \<lparr>tr_min = 0, tr_max = 10000\<rparr> [Match ''host.name'' ''node-1'']
      \<in> set (snd (getMetrics scenario_env [0, 0, 1, 1] ?options))"
    by simp
  note C7 = C7_unknown_metric [OF scenario_valid ms pre m, of "[0, 0, 1, 1]"]
  from C7 have "fst (getMetrics scenario_env [0, 0, 1, 1] ?options) =
          Some (Inl (Error (''The TSVB model for '' @ ''disk'' @ '' does not exist for '' @
                            nodeType ?options)))"
    by blast
  then have res: "fst (getMetrics scenario_env [0, 0, 1, 1] ?options)
      = Some (Inl (Error ''The TSVB model for disk does not exist for host''))"
    by (simp add: scenario_options_simps)
  from C7 query have "metrics_tsvb scenario_env (metrics ?options ! 0) \<noteq> None" by blast
  then have "metrics_tsvb scenario_env ''cpu'' \<noteq> None" by (simp add: scenario_options_simps)
  with scenario_valid m res run show ?thesis by blast
qed

text \<open>
  The claim as it stands fails on the message, on which of several unknown ids the error
  names, and when the node is absent.
\<close>

theorem C7_counterexample:
  "fst (getMetrics scenario_env [] (scenario_options [''disk'', ''network'']))
     = Some (Inl (Error ''The TSVB model for disk does not exist for host'')) \<and>
   fst (getMetrics scenario_env [] (scenario_options [''disk'', ''network'']))
     \<noteq> Some (Inl (Error ''unknown metric model for disk/host'')) \<and>
   fst (getMetrics scenario_env [] (scenario_options [''disk'', ''network'']))
     \<noteq> Some (Inl (Error ''The TSVB model for network does not exist for host'')) \<and>
   fst (getMetrics scenario_env []
          ((scenario_options [''disk'']) \<lparr>nodeIds := \<lparr>nodeId = ''node-9'', cloudId = None\<rparr>\<rparr>))
     = Some (Inl (Error ''node-9 does not exist.''))"
proof -
  have absent: "existence_check scenario_env
      ((scenario_options [''disk'']) \<lparr>nodeIds := \<lparr>nodeId = ''node-9'', cloudId = None\<rparr>\<rparr>)
      = Inr False"
    by (simp add: scenario_env_simps scenario_options_def existence_check_def nodeField_of_def)
  show ?thesis
    unfolding getMetrics_valid [OF scenario_valid] getMetrics_invalid [OF absent]
    by (simp add: scenario_simps eval_defs scenario_options_def)
qed

subsection \<open>C8: the two index patterns\<close>

text \<open>
  C8. In every run, every interval calculation in the log was called with the index pattern
  "<logAlias>,<metricAlias>" and with the \<open>requires\<close> list of the model that the catalog entry
  of its metric creates from the index pattern "<metricAlias>,<logAlias>"; every metric
  query in the log carries that model, up to its interval slot. When the node exists, the
  interval calculation of every requested metric that is in the catalog is in the log.
\<close>

theorem C8_index_patterns:
  "(\<forall>i probe req. EvIntervalProbe i probe req \<in> set (snd (getMetrics env sched options)) \<longrightarrow>
      io_indexPattern probe =
        logAlias (sourceConfiguration options) @ '','' @ metricAlias (sourceConfiguration options) \<and>
      (\<exists>createTSVBModel. metrics_tsvb env (metrics options ! i) = Some createTSVBModel \<and>
         req = requires (createTSVBModel
                 (fields_timestamp (sc_fields (sourceConfiguration options)))
                 (metricAlias (sourceConfiguration options) @ '','' @
                  logAlias (sourceConfiguration options))
                 (tr_interval (timerange options))))) \<and>
   (\<forall>i model tr filters.
      EvTSVBQuery i model tr filters \<in> set (snd (getMetrics env sched options)) \<longrightarrow>
      (\<exists>createTSVBModel v. metrics_tsvb env (metrics options ! i) = Some createTSVBModel \<and>
         model = (createTSVBModel
                    (fields_timestamp (sc_fields (sourceConfiguration options)))
                    (metricAlias (sourceConfiguration options) @ '','' @
                     logAlias (sourceConfiguration options))
                    (tr_interval (timerange options)))\<lparr>interval := v\<rparr>)) \<and>
   (existence_check env options = Inr True \<longrightarrow>
      (\<forall>i createTSVBModel. i < length (metrics options) \<and>
         metrics_tsvb env (metrics options ! i) = Some createTSVBModel \<longrightarrow>
         EvIntervalProbe i
           \<lparr>io_indexPattern = logAlias (sourceConfiguration options) @ '','' @
                              metricAlias (sourceConfiguration options),
            io_timestampField = fields_timestamp (sc_fields (sourceConfiguration options)),
            io_timerange = timerange options\<rparr>
           (requires (createTSVBModel
                 (fields_timestamp (sc_fields (sourceConfiguration options)))
                 (metricAlias (sourceConfiguration options) @ '','' @
                  logAlias (sourceConfiguration options))
                 (tr_interval (timerange options))))
         \<in> set (snd (getMetrics env sched options))))"
proof (intro conjI allI impI)
  fix i probe req
  assume "EvIntervalProbe i probe req \<in> set (snd (getMetrics env sched options))"
  from getMetrics_events [OF this] obtain model0 where
    "makeTSVBRequest_start env (metrics options ! i) options = Inr (model0, probe)"
    "req = requires model0"
    by (auto simp: event_ok_def)
  then show "io_indexPattern probe =
        logAlias (sourceConfiguration options) @ '','' @ metricAlias (sourceConfiguration options)"
    and "\<exists>createTSVBModel. metrics_tsvb env (metrics options ! i) = Some createTSVBModel \<and>
         req = requires (createTSVBModel
                 (fields_timestamp (sc_fields (sourceConfiguration options)))
                 (metricAlias (sourceConfiguration options) @ '','' @
                  logAlias (sourceConfiguration options))
                 (tr_interval (timerange options)))"
    by (auto simp: start_Inr_iff)
next
  fix i model tr filters
  assume "EvTSVBQuery i model tr filters \<in> set (snd (getMetrics env sched options))"
  from getMetrics_events [OF this] obtain model0 probe ci where
    start: "makeTSVBRequest_start env (metrics options ! i) options = Inr (model0, probe)"
    and "makeTSVBRequest_resume env (metrics options ! i) options (nodeField_of env options)
           model0 ci = Inr (model, tr, filters)"
    by (auto simp: event_ok_def)
  from resume_model [OF this(2)] have "\<exists>v. model = model0\<lparr>interval := v\<rparr>"
  proof (cases ci)
    case None
    assume "model = (case ci of None \<Rightarrow> model0
        | Some v \<Rightarrow> if v = 0 then model0
                   else model0\<lparr>interval := ''>='' @ number_to_string env v @ ''s''\<rparr>)"
    with None have "model = model0\<lparr>interval := interval model0\<rparr>" by simp
    then show ?thesis by blast
  next
    case (Some v)
    assume "model = (case ci of None \<Rightarrow> model0
        | Some v \<Rightarrow> if v = 0 then model0
                   else model0\<lparr>interval := ''>='' @ number_to_string env v @ ''s''\<rparr>)"
    with Some have "model = model0\<lparr>interval := interval model0\<rparr> \<or>
        model = model0\<lparr>interval := ''>='' @ number_to_string env v @ ''s''\<rparr>"
      by (simp split: if_splits)
    then show ?thesis by blast
  qed
  with start show "\<exists>createTSVBModel v. metrics_tsvb env (metrics options ! i) = Some createTSVBModel \<and>
         model = (createTSVBModel
                    (fields_timestamp (sc_fields (sourceConfiguration options)))
                    (metricAlias (sourceConfiguration options) @ '','' @
                     logAlias (sourceConfiguration options))
                    (tr_interval (timerange options)))\<lparr>interval := v\<rparr>"
    by (auto simp: start_Inr_iff)
next
  fix i createTSVBModel
  assume valid: "existence_check env options = Inr True"
    and "i < length (metrics options) \<and>
         metrics_tsvb env (metrics options ! i) = Some createTSVBModel"
  then have i: "i < length (metrics options)"
    and "makeTSVBRequest_start env (metrics options ! i) options =
      Inr (createTSVBModel
                 (fields_timestamp (sc_fields (sourceConfiguration options)))
                 (metricAlias (sourceConfiguration options) @ '','' @
                  logAlias (sourceConfiguration options))
                 (tr_interval (timerange options)),
           \<lparr>io_indexPattern = logAlias (sourceConfiguration options) @ '','' @
                              metricAlias (sourceConfiguration options),
            io_timestampField = fields_timestamp (sc_fields (sourceConfiguration options)),
            io_timerange = timerange options\<rparr>)"
    by (simp_all add: start_Inr_iff)
  from run_inv_probe [OF final_state_inv this, of sched]
  show "EvIntervalProbe i
           \<lparr>io_indexPattern = logAlias (sourceConfiguration options) @ '','' @
                              metricAlias (sourceConfiguration options),
            io_timestampField = fields_timestamp (sc_fields (sourceConfiguration options)),
            io_timerange = timerange options\<rparr>
           (requires (createTSVBModel
                 (fields_timestamp (sc_fields (sourceConfiguration options)))
                 (metricAlias (sourceConfiguration options) @ '','' @
                  logAlias (sourceConfiguration options))
                 (tr_interval (timerange options))))
         \<in> set (snd (getMetrics env sched options))"
    by (simp add: getMetrics_valid [OF valid])
qed

theorem C8_index_patterns_witness:
  "existence_check scenario_env (scenario_options [''cpu'', ''memory'']) = Inr True \<and>
   metrics_tsvb scenario_env ''cpu'' = Some (scenario_model ''cpu'') \<and>
   EvIntervalProbe 0
     \<lparr>io_indexPattern = ''filebeat-*,metricbeat-*'', io_timestampField = ''@timestamp'',
      io_timerange = \<lparr>tr_from = 0, tr_to = 10000, tr_interval = ''10s''\<rparr>\<rparr>
     (requires (scenario_model ''cpu'' ''@timestamp'' ''metricbeat-*,filebeat-*'' ''10s''))
     \<in> set (snd (getMetrics scenario_env [1, 0, 1, 0] (scenario_options [''cpu'', ''memory'']))) \<and>
   snd (getMetrics scenario_env [1, 0, 1, 0] (scenario_options [''cpu'', ''memory''])) =
     [EvCheckValidNode ''metricbeat-*,filebeat-*'' ''host.name'' ''node-1'',
      EvIntervalProbe 0
        \<lparr>io_indexPattern = ''filebeat-*,metricbeat-*'', io_timestampField = ''@timestamp'',
         io_timerange = \<lparr>tr_from = 0, tr_to = 10000, tr_interval = ''10s''\<rparr>\<rparr>
        [''system.cpu''],
      EvIntervalProbe 1
        \<lparr>io_indexPattern = ''filebeat-*,metricbeat-*'', io_timestampField = ''@timestamp'',
         io_timerange = \<lparr>tr_from = 0, tr_to = 10000, tr_interval = ''10s''\<rparr>\<rparr>
        [],
      EvTSVBQuery 1
        \<lparr>requires = [], interval = ''10s'', id_type = None, map_field_to = None,
         template = (''memory'', ''metricbeat-*,filebeat-*'', ''@timestamp'')\<rparr>
        \<lparr>tr_min = 0, tr_max = 10000\<rparr> [Match ''host.name'' ''node-1''],
      EvTSVBQuery 0
        \<lparr>requires = [''system.cpu''], interval = ''>=30s'', id_type = None, map_field_to = None,
         template = (''cpu'', ''metricbeat-*,filebeat-*'', ''@timestamp'')\<rparr>
        \<lparr>tr_min = 0, tr_max = 10000\<rparr> [Match ''host.name'' ''node-1'']] \<and>
   (\<exists>createTSVBModel v. metrics_tsvb scenario_env ''cpu'' = Some createTSVBModel \<and>
      \<lparr>requires = [''system.cpu''], interval = ''>=30s'', id_type = None, map_field_to = None,
       template = (''cpu'', ''metricbeat-*,filebeat-*'', ''@timestamp'')\<rparr>
        = (createTSVBModel ''@timestamp'' ''metricbeat-*,filebeat-*'' ''10s'')\<lparr>interval := v\<rparr>) \<and>
   (\<exists>createTSVBModel. metrics_tsvb scenario_env ''memory'' = Some createTSVBModel \<and>
      [] = requires (createTSVBModel ''@timestamp'' ''metricbeat-*,filebeat-*'' ''10s''))"
proof -
  let ?options = "scenario_options [''cpu'', ''memory'']"
  let ?probe = "\<lparr>io_indexPattern = ''filebeat-*,metricbeat-*'', io_timestampField = ''@timestamp'',
                 io_timerange = \<lparr>tr_from = 0, tr_to = 10000, tr_interval = ''10s''\<rparr>\<rparr>"
  let ?cpu = "\<lparr>requires = [''system.cpu''], interval = ''>=30s'', id_type = None,
               map_field_to = None,
               template = (''cpu'', ''metricbeat-*,filebeat-*'', ''@timestamp'')\<rparr>"
  have run: "snd (getMetrics scenario_env [1, 0, 1, 0] ?options) =
     [EvCheckValidNode ''metricbeat-*,filebeat-*'' ''host.name'' ''node-1'',
      EvIntervalProbe 0 ?probe [''system.cpu''],
      EvIntervalProbe 1 ?probe [],
      EvTSVBQuery 1
        \<lparr>requires = [], interval = ''10s'', id_type = None, map_field_to = None,
         template = (''memory'', ''metricbeat-*,filebeat-*'', ''@timestamp'')\<rparr>
        \<lparr>tr_min = 0, tr_max = 10000\<rparr> [Match ''host.name'' ''node-1''],
      EvTSVBQuery 0 ?cpu \<lparr>tr_min = 0, tr_max = 10000\<rparr> [Match ''host.name'' ''node-1'']]"
    unfolding getMetrics_valid [OF scenario_valid]
    by (simp add: scenario_simps eval_defs)
  have query: "EvTSVBQuery 0 ?cpu \<lparr>tr_min = 0, tr_max = 10000\<rparr> [Match ''host.name'' ''node-1'']
                 \<in> set (snd (getMetrics scenario_env [1, 0, 1, 0] ?options))"
    and probe: "EvIntervalProbe 1 ?probe []
                 \<in> set (snd (getMetrics scenario_env [1, 0, 1, 0] ?options))"
    unfolding run by simp_all
  have cat: "0 < length (metrics ?options) \<and>
             metrics_tsvb scenario_env (metrics ?options ! 0) = Some (scenario_model ''cpu'')"
    by (simp add: scenario_options_simps scenario_env_simps)
  note C8 = C8_index_patterns [of scenario_env "[1, 0, 1, 0]" ?options]
  from C8 query have "\<exists>createTSVBModel v.
      metrics_tsvb scenario_env (metrics ?options ! 0) = Some createTSVBModel \<and>
      ?cpu = (createTSVBModel
                (fields_timestamp (sc_fields (sourceConfiguration ?options)))
                (metricAlias (sourceConfiguration ?options) @ '','' @
                 logAlias (sourceConfiguration ?options))
                (tr_interval (timerange ?options)))\<lparr>interval := v\<rparr>"
    by blast
  then have q: "\<exists>createTSVBModel v. metrics_tsvb scenario_env ''cpu'' = Some createTSVBModel \<and>
      ?cpu = (createTSVBModel ''@timestamp'' ''metricbeat-*,filebeat-*'' ''10s'')\<lparr>interval := v\<rparr>"
    by (simp add: scenario_options_simps)
  from C8 probe have "\<exists>createTSVBModel.
      metrics_tsvb scenario_env (metrics ?options ! 1) = Some createTSVBModel \<and>
      [] = requires (createTSVBModel
                (fields_timestamp (sc_fields (sourceConfiguration ?options)))
                (metricAlias (sourceConfiguration ?options) @ '','' @
                 logAlias (sourceConfiguration ?options))
                (tr_interval (timerange ?options)))"
    by blast
  then have p: "\<exists>createTSVBModel. metrics_tsvb scenario_env ''memory'' = Some createTSVBModel \<and>
      [] = requires (createTSVBModel ''@timestamp'' ''metricbeat-*,filebeat-*'' ''10s'')"
    by (simp add: scenario_options_simps)
  from C8 scenario_valid cat have "EvIntervalProbe 0
           \<lparr>io_indexPattern = logAlias (sourceConfiguration ?options) @ '','' @
                              metricAlias (sourceConfiguration ?options),
            io_timestampField = fields_timestamp (sc_fields (sourceConfiguration ?options)),
            io_timerange = timerange ?options\<rparr>
           (requires (scenario_model ''cpu''
                 (fields_timestamp (sc_fields (sourceConfiguration ?options)))
                 (metricAlias (sourceConfiguration ?options) @ '','' @
                  logAlias (sourceConfiguration ?options))
                 (tr_interval (timerange ?options))))
         \<in> set (snd (getMetrics scenario_env [1, 0, 1, 0] ?options))"
    by blast
  then have logged: "EvIntervalProbe 0 ?probe
      (requires (scenario_model ''cpu'' ''@timestamp'' ''metricbeat-*,filebeat-*'' ''10s''))
      \<in> set (snd (getMetrics scenario_env [1, 0, 1, 0] ?options))"
    by (simp add: scenario_options_simps)
  have "metrics_tsvb scenario_env ''cpu'' = Some (scenario_model ''cpu'')"
    by (simp add: scenario_env_simps)
  with scenario_valid logged run q p show ?thesis by blast
qed

subsection \<open>C9: the interval override\<close>

text \<open>
  C9, amended. A metric query in the log carries the model of its metric with the interval
  slot decided by the answer \<open>ci\<close> of the interval calculation: the answer is a number other
  than zero, and the interval is ">=<v>s"; or there is no answer or the answer is zero, and
  the model is as its creator built it from the interval of the request. The calculation
  was called with the \<open>requires\<close> list of that model.
\<close>

theorem C9_interval_override:
  assumes "EvTSVBQuery i model tr filters \<in> set (snd (getMetrics env sched options))"
  shows "\<exists>createTSVBModel ci.
           metrics_tsvb env (metrics options ! i) = Some createTSVBModel \<and>
           calculateMetricInterval env
             \<lparr>io_indexPattern = logAlias (sourceConfiguration options) @ '','' @
                                metricAlias (sourceConfiguration options),
              io_timestampField = fields_timestamp (sc_fields (sourceConfiguration options)),
              io_timerange = timerange options\<rparr>
             (requires (createTSVBModel
                 (fields_timestamp (sc_fields (sourceConfiguration options)))
                 (metricAlias (sourceConfiguration options) @ '','' @
                  logAlias (sourceConfiguration options))
                 (tr_interval (timerange options)))) = Inr ci \<and>
           model =
             (case ci of
                None \<Rightarrow>
                  createTSVBModel
                    (fields_timestamp (sc_fields (sourceConfiguration options)))
                    (metricAlias (sourceConfiguration options) @ '','' @
                     logAlias (sourceConfiguration options))
                    (tr_interval (timerange options))
              | Some v \<Rightarrow>
                  if v = 0
                  then createTSVBModel
                         (fields_timestamp (sc_fields (sourceConfiguration options)))
                         (metricAlias (sourceConfiguration options) @ '','' @
                          logAlias (sourceConfiguration options))
                         (tr_interval (timerange options))
                  else (createTSVBModel
                         (fields_timestamp (sc_fields (sourceConfiguration options)))
                         (metricAlias (sourceConfiguration options) @ '','' @
                          logAlias (sourceConfiguration options))
                         (tr_interval (timerange options)))
                       \<lparr>interval := ''>='' @ number_to_string env v @ ''s''\<rparr>)"
proof -
  from getMetrics_events [OF assms] obtain model0 probe ci where
    start: "makeTSVBRequest_start env (metrics options ! i) options = Inr (model0, probe)"
    and calc: "calculateMetricInterval env probe (requires model0) = Inr ci"
    and "makeTSVBRequest_resume env (metrics options ! i) options (nodeField_of env options)
           model0 ci = Inr (model, tr, filters)"
    by (auto simp: event_ok_def)
  note model = resume_model [OF this(3)]
  from start obtain createTSVBModel where
    "metrics_tsvb env (metrics options ! i) = Some createTSVBModel"
    "model0 = createTSVBModel (fields_timestamp (sc_fields (sourceConfiguration options)))
                 (metricAlias (sourceConfiguration options) @ '','' @
                  logAlias (sourceConfiguration options))
                 (tr_interval (timerange options))"
    "probe = \<lparr>io_indexPattern = logAlias (sourceConfiguration options) @ '','' @
                                  metricAlias (sourceConfiguration options),
               io_timestampField = fields_timestamp (sc_fields (sourceConfiguration options)),
               io_timerange = timerange options\<rparr>"
    by (auto simp: start_Inr_iff)
  with calc model show ?thesis by blast
qed

theorem C9_interval_override_witness:
  "EvTSVBQuery 0
     \<lparr>requires = [''system.cpu''], interval = ''>=30s'', id_type = None, map_field_to = None,
      template = (''cpu'', ''metricbeat-*,filebeat-*'', ''@timestamp'')\<rparr>
     \<lparr>tr_min = 0, tr_max = 10000\<rparr> [Match ''host.name'' ''node-1'']
     \<in> set (snd (getMetrics scenario_env [0] (scenario_options [''cpu'']))) \<and>
   (\<exists>createTSVBModel ci.
      metrics_tsvb scenario_env ''cpu'' = Some createTSVBModel \<and>
      calculateMetricInterval scenario_env
        \<lparr>io_indexPattern = ''filebeat-*,metricbeat-*'', io_timestampField = ''@timestamp'',
         io_timerange = \<lparr>tr_from = 0, tr_to = 10000, tr_interval = ''10s''\<rparr>\<rparr>
        (requires (createTSVBModel ''@timestamp'' ''metricbeat-*,filebeat-*'' ''10s'')) = Inr ci \<and>
      \<lparr>requires = [''system.cpu''], interval = ''>=30s'', id_type = None, map_field_to = None,
       template = (''cpu'', ''metricbeat-*,filebeat-*'', ''@timestamp'')\<rparr> =
        (case ci of
           None \<Rightarrow> createTSVBModel ''@timestamp'' ''metricbeat-*,filebeat-*'' ''10s''
         | Some v \<Rightarrow>
             if v = 0 then createTSVBModel ''@timestamp'' ''metricbeat-*,filebeat-*'' ''10s''
             else (createTSVBModel ''@timestamp'' ''metricbeat-*,filebeat-*'' ''10s'')
                  \<lparr>interval := ''>='' @ number_to_string scenario_env v @ ''s''\<rparr>))"
proof -
  let ?options = "scenario_options [''cpu'']"
  let ?cpu = "\<lparr>requires = [''system.cpu''], interval = ''>=30s'', id_type = None,
               map_field_to = None,
               template = (''cpu'', ''metricbeat-*,filebeat-*'', ''@timestamp'')\<rparr>"
  have query: "EvTSVBQuery 0 ?cpu \<lparr>tr_min = 0, tr_max = 10000\<rparr> [Match ''host.name'' ''node-1'']
                 \<in> set (snd (getMetrics scenario_env [0] ?options))"
    unfolding getMetrics_valid [OF scenario_valid]
    by (simp add: scenario_simps eval_defs)
  from C9_interval_override [OF query] query show ?thesis
    by (simp add: scenario_options_simps cong: option.case_cong if_cong)
qed

text \<open>
  The claim as it stands fails where the interval calculation answers zero: the test of
  the answer is a truthiness test, and the model keeps the interval of the request.
\<close>

theorem C9_counterexample:
  "calculateMetricInterval
     (scenario_env\<lparr>calculateMetricInterval := \<lambda>probe req. Inr (Some 0)\<rparr>)
     \<lparr>io_indexPattern = ''filebeat-*,metricbeat-*'', io_timestampField = ''@timestamp'',
      io_timerange = \<lparr>tr_from = 0, tr_to = 10000, tr_interval = ''10s''\<rparr>\<rparr>
     [''system.cpu''] = Inr (Some 0) \<and>
   number_to_string (scenario_env\<lparr>calculateMetricInterval := \<lambda>probe req. Inr (Some 0)\<rparr>) 0
     = ''0'' \<and>
   snd (getMetrics (scenario_env\<lparr>calculateMetricInterval := \<lambda>probe req. Inr (Some 0)\<rparr>) [0]
          (scenario_options [''cpu''])) =
     [EvCheckValidNode ''metricbeat-*,filebeat-*'' ''host.name'' ''node-1'',
      EvIntervalProbe 0
        \<lparr>io_indexPattern = ''filebeat-*,metricbeat-*'', io_timestampField = ''@timestamp'',
         io_timerange = \<lparr>tr_from = 0, tr_to = 10000, tr_interval = ''10s''\<rparr>\<rparr>
        [''system.cpu''],
      EvTSVBQuery 0
        \<lparr>requires = [''system.cpu''], interval = ''10s'', id_type = None, map_field_to = None,
         template = (''cpu'', ''metricbeat-*,filebeat-*'', ''@timestamp'')\<rparr>
        \<lparr>tr_min = 0, tr_max = 10000\<rparr> [Match ''host.name'' ''node-1'']]"
proof -
  let ?env = "scenario_env\<lparr>calculateMetricInterval := \<lambda>probe req. Inr (Some 0)\<rparr>"
  have valid: "existence_check ?env (scenario_options [''cpu'']) = Inr True"
    by (simp add: scenario_simps)
  show ?thesis
    unfolding getMetrics_valid [OF valid]
    by (simp add: scenario_simps eval_defs)
qed

subsection \<open>C10: request order\<close>

text \<open>
  C10. When every task succeeds, task \<open>i\<close> with the raw result \<open>raws ! i\<close>, a list that
  \<open>getMetrics\<close> returns is the concatenation, in request order, of the normalized results:
  there is one part per requested metric, part \<open>i\<close> is the normalization of the raw result
  of \<open>metrics ! i\<close>, and the parts stand in the order of the request. The schedule is
  arbitrary: the order in which the backend answers has no influence.
\<close>

theorem C10_request_order:
  assumes "map (\<lambda>m. makeTSVBRequest env m options (nodeField_of env options)) (metrics options)
             = map Inr raws"
    and "fst (getMetrics env sched options) = Some (Inr out)"
  shows "\<exists>parts. length parts = length (metrics options) \<and> out = concat parts \<and>
           (\<forall>i<length (metrics options). normalize_result env (raws ! i) = Inr (parts ! i))"
proof -
  from assms(2) have "join_then env (final_state env sched options) = Some (Inr out)"
    by (simp add: getMetrics_valid [OF fulfilled_result [OF assms(2)]])
  from join_then_Inr [OF final_state_inv this] obtain raws' where
    "map (\<lambda>m. makeTSVBRequest env m options (nodeField_of env options)) (metrics options)
       = map Inr raws'" and out: "normalize_all env raws' = Inr out"
    by blast
  with assms(1) have "map Inr raws' = (map Inr raws :: (error + tsvb_response) list)" by simp
  then have "raws' = raws" by (simp add: inj_map_eq_map)
  with out obtain parts where
    parts: "map (normalize_result env) raws = map Inr parts" and c: "out = concat parts"
    by (auto simp: normalize_all_Inr)
  from assms(1) have lr: "length raws = length (metrics options)" by (metis length_map)
  from parts have lp: "length parts = length raws" by (metis length_map)
  have "normalize_result env (raws ! i) = Inr (parts ! i)" if "i < length (metrics options)" for i
    using parts that lr lp by (metis nth_map)
  with lp lr c show ?thesis by auto
qed

theorem C10_request_order_witness:
  "fst (getMetrics scenario_env [1, 1, 0, 0] (scenario_options [''cpu'', ''memory''])) =
     Some (Inr [\<lparr>metric_id = ''cpu'', metric_series =
                   [\<lparr>series_id = ''cpu'', series_label = ''CPU'',
                     series_data = [\<lparr>timestamp = 1000, value = 0.5\<rparr>,
                                    \<lparr>timestamp = 2000, value = 0.6\<rparr>]\<rparr>]\<rparr>,
                \<lparr>metric_id = ''memory'', metric_series =
                   [\<lparr>series_id = ''memory'', series_label = ''Memory'',
                     series_data = [\<lparr>timestamp = 1000, value = 40\<rparr>]\<rparr>]\<rparr>]) \<and>
   (\<exists>parts. length parts = 2 \<and>
      normalize_result scenario_env [(''cpu'', cpu_panel)] = Inr (parts ! 0) \<and>
      normalize_result scenario_env [(''memory'', memory_panel)] = Inr (parts ! 1) \<and>
      [\<lparr>metric_id = ''cpu'', metric_series =
                   [\<lparr>series_id = ''cpu'', series_label = ''CPU'',
                     series_data = [\<lparr>timestamp = 1000, value = 0.5\<rparr>,
                                    \<lparr>timestamp = 2000, value = 0.6\<rparr>]\<rparr>]\<rparr>,
                \<lparr>metric_id = ''memory'', metric_series =
                   [\<lparr>series_id = ''memory'', series_label = ''Memory'',
                     series_data = [\<lparr>timestamp = 1000, value = 40\<rparr>]\<rparr>]\<rparr>] = concat parts)"
proof -
  let ?options = "scenario_options [''cpu'', ''memory'']"
  let ?out = "[\<lparr>metric_id = ''cpu'', metric_series =
                   [\<lparr>series_id = ''cpu'', series_label = ''CPU'',
                     series_data = [\<lparr>timestamp = 1000, value = 0.5\<rparr>,
                                    \<lparr>timestamp = 2000, value = 0.6\<rparr>]\<rparr>]\<rparr>,
                \<lparr>metric_id = ''memory'', metric_series =
                   [\<lparr>series_id = ''memory'', series_label = ''Memory'',
                     series_data = [\<lparr>timestamp = 1000, value = 40\<rparr>]\<rparr>]\<rparr>]"
  have tasks: "map (\<lambda>m. makeTSVBRequest scenario_env m ?options (nodeField_of scenario_env ?options))
                 (metrics ?options) = map Inr [[(''cpu'', cpu_panel)], [(''memory'', memory_panel)]]"
    by (simp add: scenario_simps eval_defs)
  have res: "fst (getMetrics scenario_env [1, 1, 0, 0] ?options) = Some (Inr ?out)"
    by (simp add: getMetrics_valid [OF scenario_valid] scenario_simps eval_defs normalize_defs)
  from C10_request_order [OF tasks res] obtain parts where
    "length parts = length (metrics ?options)" "?out = concat parts"
    "\<forall>i<length (metrics ?options).
       normalize_result scenario_env ([[(''cpu'', cpu_panel)], [(''memory'', memory_panel)]] ! i)
         = Inr (parts ! i)"
    by blast
  then have "length parts = 2 \<and>
      normalize_result scenario_env [(''cpu'', cpu_panel)] = Inr (parts ! 0) \<and>
      normalize_result scenario_env [(''memory'', memory_panel)] = Inr (parts ! 1) \<and>
      ?out = concat parts"
    by (simp add: scenario_options_simps numeral_2_eq_2 less_Suc_eq)
  with res show ?thesis by blast
qed

end
